theory Spec2Isabelle
  imports Complex_Main
begin

section \<open>Term algebra (Terms.h)\<close>

text \<open>
  The C++ type \<^verbatim>\<open>double\<close> is modelled by \<^typ>\<open>real\<close>: the functions below only
  compare coefficients and powers with constants and add them up. A \<^verbatim>\<open>VariablePtr\<close>
  is a shared pointer; the model keeps the identity of the object it points to
  (a natural number) and reads the object's fields through a store.
\<close>

datatype E_Convexity =
  Convexity_Linear | Convexity_Convex | Convexity_Concave | Convexity_Nonconvex
  | Convexity_Unknown | Convexity_NotSet

datatype E_Monotonicity =
  Monotonicity_Nondecreasing | Monotonicity_Nonincreasing | Monotonicity_Constant
  | Monotonicity_Unknown | Monotonicity_NotSet

datatype E_VariableType = Continuous | Binary | Integer | SemiContinuous | SemiInteger

type_synonym VariablePtr = nat

text \<open>
  Modelled from the spec: \<^verbatim>\<open>Variables.h\<close> is not among the sources; a Variable has an
  identity made of index, name and type.
\<close>

record Variable =
  index :: int
  name :: string
  type :: E_VariableType

type_synonym VectorDouble = "real list"

text \<open>
  \<^verbatim>\<open>SparseVariableVector\<close> is a \<^verbatim>\<open>std::map\<close> from VariablePtr to double.
\<close>

type_synonym SparseVariableVector = "VariablePtr \<rightharpoonup> real"

text \<open>
  \<^verbatim>\<open>std::map::insert\<close>: stores the pair when the key is absent and leaves the map
  alone otherwise; the boolean of the result tells whether the pair was stored.
\<close>

definition map_insert :: "('k \<rightharpoonup> 'v) \<Rightarrow> 'k \<Rightarrow> 'v \<Rightarrow> ('k \<rightharpoonup> 'v) \<times> bool" where
  "map_insert m k v = (case m k of None \<Rightarrow> (m(k \<mapsto> v), True) | Some _ \<Rightarrow> (m, False))"

record Term =
  coefficient :: real

subsection \<open>Linear terms\<close>

record LinearTerm = Term +
  variable :: VariablePtr

definition LinearTerm_getConvexity :: "LinearTerm \<Rightarrow> E_Convexity" where
  "LinearTerm_getConvexity t = Convexity_Linear"

definition LinearTerm_getMonotonicity :: "LinearTerm \<Rightarrow> E_Monotonicity" where
  "LinearTerm_getMonotonicity t =
     (if coefficient t > 0 then Monotonicity_Nondecreasing
      else if coefficient t < 0 then Monotonicity_Nonincreasing
      else Monotonicity_Constant)"

subsection \<open>The collection template \<^verbatim>\<open>Terms<T>\<close>\<close>

text \<open>
  The vector base class is the field \<open>items\<close>; the two protected members are the
  cached classifications.
\<close>

record 't Terms =
  items :: "'t list"
  convexity :: E_Convexity
  monotonicity :: E_Monotonicity

definition Terms_init :: "'t Terms" where
  "Terms_init = \<lparr>items = [], convexity = Convexity_NotSet, monotonicity = Monotonicity_NotSet\<rparr>"

text \<open>
  The loop of \<^verbatim>\<open>updateMonotonicity\<close> on the pair
  (areAllNonincreasing, areAllNondecreasing); the first argument is the virtual call
  \<^verbatim>\<open>TERM->getMonotonicity()\<close>.
\<close>

fun updateMonotonicity_loop ::
  "('t \<Rightarrow> E_Monotonicity) \<Rightarrow> 't list \<Rightarrow> bool \<times> bool \<Rightarrow> bool \<times> bool" where
  "updateMonotonicity_loop gm [] acc = acc"
| "updateMonotonicity_loop gm (T # rest) (areAllNonincreasing, areAllNondecreasing) =
     (let m = gm T in
      updateMonotonicity_loop gm rest
        (areAllNonincreasing \<and> (m = Monotonicity_Nonincreasing \<or> m = Monotonicity_Constant),
         areAllNondecreasing \<and> (m = Monotonicity_Nondecreasing \<or> m = Monotonicity_Constant)))"

definition Terms_updateMonotonicity ::
  "('t \<Rightarrow> E_Monotonicity) \<Rightarrow> ('t, 'z) Terms_scheme \<Rightarrow> ('t, 'z) Terms_scheme" where
  "Terms_updateMonotonicity gm s =
     (case updateMonotonicity_loop gm (items s) (True, True) of
        (areAllNonincreasing, areAllNondecreasing) \<Rightarrow>
          if areAllNonincreasing then s\<lparr>monotonicity := Monotonicity_Nonincreasing\<rparr>
          else if areAllNondecreasing then s\<lparr>monotonicity := Monotonicity_Nondecreasing\<rparr>
          else s\<lparr>monotonicity := Monotonicity_Unknown\<rparr>)"

text \<open>
  The getters return the value and the collection, whose cache they may have filled.
  The first argument of \<open>Terms_getConvexity\<close> is the virtual \<^verbatim>\<open>updateConvexity\<close>.
\<close>

definition Terms_getConvexity ::
  "(('t, 'z) Terms_scheme \<Rightarrow> ('t, 'z) Terms_scheme) \<Rightarrow> ('t, 'z) Terms_scheme
     \<Rightarrow> E_Convexity \<times> ('t, 'z) Terms_scheme" where
  "Terms_getConvexity updateConvexity s =
     (let s' = (if convexity s = Convexity_NotSet then updateConvexity s else s)
      in (convexity s', s'))"

definition Terms_getMonotonicity ::
  "('t \<Rightarrow> E_Monotonicity) \<Rightarrow> ('t, 'z) Terms_scheme \<Rightarrow> E_Monotonicity \<times> ('t, 'z) Terms_scheme" where
  "Terms_getMonotonicity gm s =
     (let s' = (if monotonicity s = Monotonicity_NotSet then Terms_updateMonotonicity gm s else s)
      in (monotonicity s', s'))"

text \<open>
  A cache is valid when it is not set or holds what the update function computes from the
  current members. The collections are changed through \<^verbatim>\<open>add\<close> and the getters only: the
  operations of the vector that the classes re-export (\<^verbatim>\<open>push_back\<close>, \<^verbatim>\<open>clear\<close>,
  \<^verbatim>\<open>erase\<close>, \<^verbatim>\<open>resize\<close>) do not touch the caches and are not modelled.
\<close>

definition monotonicity_cache_valid ::
  "('t \<Rightarrow> E_Monotonicity) \<Rightarrow> ('t, 'z) Terms_scheme \<Rightarrow> bool" where
  "monotonicity_cache_valid gm s =
     (monotonicity s = Monotonicity_NotSet
      \<or> monotonicity s = monotonicity (Terms_updateMonotonicity gm s))"

definition convexity_cache_valid ::
  "(('t, 'z) Terms_scheme \<Rightarrow> ('t, 'z) Terms_scheme) \<Rightarrow> ('t, 'z) Terms_scheme \<Rightarrow> bool" where
  "convexity_cache_valid updateConvexity s =
     (convexity s = Convexity_NotSet \<or> convexity s = convexity (updateConvexity s))"

subsection \<open>LinearTerms\<close>

type_synonym LinearTerms = "LinearTerm Terms"

definition LinearTerms_updateConvexity :: "LinearTerms \<Rightarrow> LinearTerms" where
  "LinearTerms_updateConvexity s = s\<lparr>convexity := Convexity_Linear\<rparr>"

definition LinearTerms_add :: "LinearTerms \<Rightarrow> LinearTerm \<Rightarrow> LinearTerms" where
  "LinearTerms_add s term =
     s\<lparr>items := items s @ [term], monotonicity := Monotonicity_NotSet\<rparr>"

definition LinearTerms_addAll :: "LinearTerms \<Rightarrow> LinearTerms \<Rightarrow> LinearTerms" where
  "LinearTerms_addAll s terms =
     (let s' = s\<lparr>items := items s @ items terms\<rparr>
      in if length (items terms) > 0 then s'\<lparr>monotonicity := Monotonicity_NotSet\<rparr> else s')"

definition LinearTerms_getConvexity :: "LinearTerms \<Rightarrow> E_Convexity \<times> LinearTerms" where
  "LinearTerms_getConvexity = Terms_getConvexity LinearTerms_updateConvexity"

definition LinearTerms_getMonotonicity :: "LinearTerms \<Rightarrow> E_Monotonicity \<times> LinearTerms" where
  "LinearTerms_getMonotonicity = Terms_getMonotonicity LinearTerm_getMonotonicity"

text \<open>
  \<^verbatim>\<open>LinearTerms::calculateGradient\<close>. \<open>element\<close> is the pair that \<^verbatim>\<open>insert\<close> returns.
  When the key was already there the source executes
  \<^verbatim>\<open>element.second += T->coefficient\<close>, which assigns to the boolean of that local
  pair (the boolean is promoted to a number, the coefficient added, and the sum converted
  back); the entry of the map is \<^verbatim>\<open>element.first->second\<close> and is not written.
\<close>

fun LinearTerms_calculateGradient_loop ::
  "LinearTerm list \<Rightarrow> SparseVariableVector \<Rightarrow> SparseVariableVector" where
  "LinearTerms_calculateGradient_loop [] gradient = gradient"
| "LinearTerms_calculateGradient_loop (T # rest) gradient =
     (if coefficient T = 0 then LinearTerms_calculateGradient_loop rest gradient
      else
        (case map_insert gradient (variable T) (coefficient T) of
           (gradient', element_second) \<Rightarrow>
             (if \<not> element_second then
                (let element_second' = ((if element_second then 1 else 0) + coefficient T \<noteq> 0)
                 in LinearTerms_calculateGradient_loop rest gradient')
              else LinearTerms_calculateGradient_loop rest gradient')))"

definition LinearTerms_calculateGradient ::
  "LinearTerms \<Rightarrow> VectorDouble \<Rightarrow> SparseVariableVector" where
  "LinearTerms_calculateGradient s point = LinearTerms_calculateGradient_loop (items s) Map.empty"

subsection \<open>Quadratic terms\<close>

record QuadraticTerm = Term +
  firstVariable :: VariablePtr
  secondVariable :: VariablePtr
  isBilinear :: bool
  isSquare :: bool
  isBinary :: bool

definition QuadraticTerm_getConvexity :: "QuadraticTerm \<Rightarrow> E_Convexity" where
  "QuadraticTerm_getConvexity t =
     (if firstVariable t = secondVariable t then
        (if coefficient t > 0 then Convexity_Convex
         else if coefficient t < 0 then Convexity_Concave
         else Convexity_Linear)
      else Convexity_Nonconvex)"

definition QuadraticTerm_getMonotonicity :: "QuadraticTerm \<Rightarrow> E_Monotonicity" where
  "QuadraticTerm_getMonotonicity t =
     (if coefficient t > 0 then Monotonicity_Nondecreasing
      else if coefficient t < 0 then Monotonicity_Nonincreasing
      else Monotonicity_Constant)"

text \<open>
  An \<^verbatim>\<open>Eigen::Triplet<double>\<close> is (row, column, value). The eigenvalue solver is a
  library outside the repository: it is a parameter that receives the dimension and
  the triplets of the matrix and answers \<open>None\<close> when \<^verbatim>\<open>info() != Eigen::Success\<close>, and
  the eigenvalues by position otherwise. Each call of the solver is recorded in the
  field \<open>eigenCalls\<close> of the collection.
\<close>

type_synonym Triplet = "int \<times> int \<times> real"

type_synonym EigenSolver = "nat \<Rightarrow> Triplet list \<Rightarrow> (nat \<Rightarrow> real) option"

record QuadraticTerms = "QuadraticTerm Terms" +
  eigenCalls :: "(nat \<times> Triplet list) list"

definition QuadraticTerms_init :: QuadraticTerms where
  "QuadraticTerms_init =
     \<lparr>items = [], convexity = Convexity_NotSet, monotonicity = Monotonicity_NotSet,
      eigenCalls = []\<rparr>"

text \<open>
  The state of the first loop of \<^verbatim>\<open>QuadraticTerms::updateConvexity\<close>. Of the
  \<^verbatim>\<open>std::map<VariablePtr, bool>\<close> only the size is read: the model keeps its keys.
\<close>

record QuadraticScan =
  elements :: "Triplet list"
  variableMap :: "VariablePtr list"
  allSquares :: bool
  allPositive :: bool
  allNegative :: bool

fun updateConvexity_scan ::
  "(VariablePtr \<Rightarrow> Variable) \<Rightarrow> QuadraticTerm list \<Rightarrow> QuadraticScan \<Rightarrow> QuadraticScan" where
  "updateConvexity_scan vars [] st = st"
| "updateConvexity_scan vars (T # rest) st =
     (if firstVariable T = secondVariable T then
        updateConvexity_scan vars rest
          (st\<lparr>variableMap := List.insert (firstVariable T) (variableMap st),
              allPositive := (allPositive st \<and> coefficient T \<ge> 0),
              allNegative := (allNegative st \<and> coefficient T \<le> 0),
              elements := elements st @
                [(index (vars (firstVariable T)), index (vars (firstVariable T)), coefficient T)]\<rparr>)
      else
        updateConvexity_scan vars rest
          (st\<lparr>variableMap :=
                List.insert (secondVariable T) (List.insert (firstVariable T) (variableMap st)),
              allSquares := False,
              elements := elements st @
                [if index (vars (firstVariable T)) > index (vars (secondVariable T))
                 then (index (vars (firstVariable T)), index (vars (secondVariable T)),
                       0.5 * coefficient T)
                 else (index (vars (secondVariable T)), index (vars (firstVariable T)),
                       0.5 * coefficient T)]\<rparr>))"

text \<open>The second loop: the two flags over the eigenvalues 0 .. numberOfVariables - 1.\<close>

fun updateConvexity_eigenvalues :: "(nat \<Rightarrow> real) \<Rightarrow> nat list \<Rightarrow> bool \<times> bool \<Rightarrow> bool \<times> bool" where
  "updateConvexity_eigenvalues ev [] acc = acc"
| "updateConvexity_eigenvalues ev (i # rest) (areAllPositiveOrZero, areAllNegativeOrZero) =
     (let eigenvalue = ev i in
      updateConvexity_eigenvalues ev rest
        (areAllPositiveOrZero \<and> eigenvalue > 0, areAllNegativeOrZero \<and> eigenvalue < 0))"

definition QuadraticTerms_updateConvexity ::
  "EigenSolver \<Rightarrow> (VariablePtr \<Rightarrow> Variable) \<Rightarrow> QuadraticTerms \<Rightarrow> QuadraticTerms" where
  "QuadraticTerms_updateConvexity eigenSolver vars s =
     (if length (items s) = 0 then s\<lparr>convexity := Convexity_Linear\<rparr>
      else
        (let st = updateConvexity_scan vars (items s)
                    \<lparr>elements = [], variableMap = [], allSquares = True,
                     allPositive = True, allNegative = True\<rparr>
         in if allSquares st \<and> allPositive st then s\<lparr>convexity := Convexity_Convex\<rparr>
            else if allSquares st \<and> allNegative st then s\<lparr>convexity := Convexity_Concave\<rparr>
            else
              (let numberOfVariables = length (variableMap st);
                   s1 = s\<lparr>eigenCalls := eigenCalls s @ [(numberOfVariables, elements st)]\<rparr>
               in case eigenSolver numberOfVariables (elements st) of
                    None \<Rightarrow> s1\<lparr>convexity := Convexity_Unknown\<rparr>
                  | Some ev \<Rightarrow>
                      (case updateConvexity_eigenvalues ev [0..<numberOfVariables] (True, True) of
                         (areAllPositiveOrZero, areAllNegativeOrZero) \<Rightarrow>
                           if areAllPositiveOrZero then s1\<lparr>convexity := Convexity_Convex\<rparr>
                           else if areAllNegativeOrZero then s1\<lparr>convexity := Convexity_Concave\<rparr>
                           else s1\<lparr>convexity := Convexity_Nonconvex\<rparr>))))"

definition QuadraticTerms_add :: "QuadraticTerms \<Rightarrow> QuadraticTerm \<Rightarrow> QuadraticTerms" where
  "QuadraticTerms_add s term =
     s\<lparr>items := items s @ [term], convexity := Convexity_NotSet,
       monotonicity := Monotonicity_NotSet\<rparr>"

definition QuadraticTerms_addAll :: "QuadraticTerms \<Rightarrow> QuadraticTerms \<Rightarrow> QuadraticTerms" where
  "QuadraticTerms_addAll s terms =
     (let s' = s\<lparr>items := items s @ items terms\<rparr>
      in if length (items terms) > 0
         then s'\<lparr>convexity := Convexity_NotSet, monotonicity := Monotonicity_NotSet\<rparr> else s')"

definition QuadraticTerms_getConvexity ::
  "EigenSolver \<Rightarrow> (VariablePtr \<Rightarrow> Variable) \<Rightarrow> QuadraticTerms \<Rightarrow> E_Convexity \<times> QuadraticTerms" where
  "QuadraticTerms_getConvexity eigenSolver vars =
     Terms_getConvexity (QuadraticTerms_updateConvexity eigenSolver vars)"

definition QuadraticTerms_getMonotonicity ::
  "QuadraticTerms \<Rightarrow> E_Monotonicity \<times> QuadraticTerms" where
  "QuadraticTerms_getMonotonicity = Terms_getMonotonicity QuadraticTerm_getMonotonicity"

subsection \<open>Monomial terms\<close>

record MonomialTerm = Term +
  variables :: "VariablePtr list"
  monomial_isBilinear :: bool
  monomial_isSquare :: bool
  monomial_isBinary :: bool

definition MonomialTerm_getConvexity :: "MonomialTerm \<Rightarrow> E_Convexity" where
  "MonomialTerm_getConvexity t = Convexity_Unknown"

definition MonomialTerm_getMonotonicity :: "MonomialTerm \<Rightarrow> E_Monotonicity" where
  "MonomialTerm_getMonotonicity t = Monotonicity_Unknown"

type_synonym MonomialTerms = "MonomialTerm Terms"

definition MonomialTerms_updateConvexity :: "MonomialTerms \<Rightarrow> MonomialTerms" where
  "MonomialTerms_updateConvexity s = s\<lparr>convexity := Convexity_Nonconvex\<rparr>"

definition MonomialTerms_add :: "MonomialTerms \<Rightarrow> MonomialTerm \<Rightarrow> MonomialTerms" where
  "MonomialTerms_add s term =
     s\<lparr>items := items s @ [term], convexity := Convexity_NotSet,
       monotonicity := Monotonicity_NotSet\<rparr>"

definition MonomialTerms_addAll :: "MonomialTerms \<Rightarrow> MonomialTerms \<Rightarrow> MonomialTerms" where
  "MonomialTerms_addAll s terms =
     (let s' = s\<lparr>items := items s @ items terms\<rparr>
      in if length (items terms) > 0
         then s'\<lparr>convexity := Convexity_NotSet, monotonicity := Monotonicity_NotSet\<rparr> else s')"

definition MonomialTerms_getConvexity :: "MonomialTerms \<Rightarrow> E_Convexity \<times> MonomialTerms" where
  "MonomialTerms_getConvexity = Terms_getConvexity MonomialTerms_updateConvexity"

definition MonomialTerms_getMonotonicity :: "MonomialTerms \<Rightarrow> E_Monotonicity \<times> MonomialTerms" where
  "MonomialTerms_getMonotonicity = Terms_getMonotonicity MonomialTerm_getMonotonicity"

subsection \<open>Signomial terms\<close>

record SignomialElement =
  element_variable :: VariablePtr
  power :: real

record SignomialTerm = Term +
  signomial_elements :: "SignomialElement list"

text \<open>
  The loop that both classifications of a signomial term start with: the pair
  (numberPositivePowers, sumPowers).
\<close>

fun signomial_powers :: "SignomialElement list \<Rightarrow> int \<times> real \<Rightarrow> int \<times> real" where
  "signomial_powers [] acc = acc"
| "signomial_powers (E # rest) (numberPositivePowers, sumPowers) =
     signomial_powers rest
       ((if power E > 0 then numberPositivePowers + 1 else numberPositivePowers),
        sumPowers + power E)"

definition SignomialTerm_getConvexity :: "SignomialTerm \<Rightarrow> E_Convexity" where
  "SignomialTerm_getConvexity t =
     (case signomial_powers (signomial_elements t) (0, 0) of
        (numberPositivePowers, sumPowers) \<Rightarrow>
          if length (signomial_elements t) = 1 \<and> sumPowers = 1 then Convexity_Linear
          else if coefficient t > 0 then
            (if numberPositivePowers = 1 \<and> sumPowers > 1 then Convexity_Convex
             else if length (signomial_elements t) = 1 \<and> sumPowers > 0 \<and> sumPowers < 1
               then Convexity_Concave
             else if numberPositivePowers = 0 then Convexity_Convex
             else Convexity_Nonconvex)
          else if coefficient t < 0 then
            (if numberPositivePowers = 1 \<and> sumPowers > 1 then Convexity_Concave
             else if length (signomial_elements t) = 1 \<and> sumPowers > 0 \<and> sumPowers < 1
               then Convexity_Convex
             else if numberPositivePowers = 0 then Convexity_Concave
             else Convexity_Nonconvex)
          else Convexity_Nonconvex)"

definition SignomialTerm_getMonotonicity :: "SignomialTerm \<Rightarrow> E_Monotonicity" where
  "SignomialTerm_getMonotonicity t =
     (if coefficient t = 0 then Monotonicity_Constant
      else
        (case signomial_powers (signomial_elements t) (0, 0) of
           (numberPositivePowers, sumPowers) \<Rightarrow>
             if coefficient t > 0 then
               (if length (signomial_elements t) = 1 \<and> sumPowers = 0 then Monotonicity_Constant
                else if length (signomial_elements t) = 1 \<and> sumPowers > 0
                  then Monotonicity_Nondecreasing
                else if length (signomial_elements t) = 1 \<and> sumPowers < 0
                  then Monotonicity_Nonincreasing
                else if numberPositivePowers = 0 then Monotonicity_Nonincreasing
                else if numberPositivePowers = int (length (signomial_elements t))
                  then Monotonicity_Nondecreasing
                else Monotonicity_Unknown)
             else if coefficient t < 0 then
               (if length (signomial_elements t) = 1 \<and> sumPowers = 0 then Monotonicity_Constant
                else if length (signomial_elements t) = 1 \<and> sumPowers > 0
                  then Monotonicity_Nonincreasing
                else if length (signomial_elements t) = 1 \<and> sumPowers < 0
                  then Monotonicity_Nondecreasing
                else if numberPositivePowers = 0 then Monotonicity_Nondecreasing
                else if numberPositivePowers = int (length (signomial_elements t))
                  then Monotonicity_Nonincreasing
                else Monotonicity_Unknown)
             else Monotonicity_Unknown))"

type_synonym SignomialTerms = "SignomialTerm Terms"

definition SignomialTerms_updateConvexity :: "SignomialTerms \<Rightarrow> SignomialTerms" where
  "SignomialTerms_updateConvexity s = s\<lparr>convexity := Convexity_Unknown\<rparr>"

definition SignomialTerms_add :: "SignomialTerms \<Rightarrow> SignomialTerm \<Rightarrow> SignomialTerms" where
  "SignomialTerms_add s term =
     s\<lparr>items := items s @ [term], convexity := Convexity_NotSet,
       monotonicity := Monotonicity_NotSet\<rparr>"

definition SignomialTerms_addAll :: "SignomialTerms \<Rightarrow> SignomialTerms \<Rightarrow> SignomialTerms" where
  "SignomialTerms_addAll s terms =
     (let s' = s\<lparr>items := items s @ items terms\<rparr>
      in if length (items terms) > 0
         then s'\<lparr>convexity := Convexity_NotSet, monotonicity := Monotonicity_NotSet\<rparr> else s')"

definition SignomialTerms_getConvexity :: "SignomialTerms \<Rightarrow> E_Convexity \<times> SignomialTerms" where
  "SignomialTerms_getConvexity = Terms_getConvexity SignomialTerms_updateConvexity"

definition SignomialTerms_getMonotonicity ::
  "SignomialTerms \<Rightarrow> E_Monotonicity \<times> SignomialTerms" where
  "SignomialTerms_getMonotonicity = Terms_getMonotonicity SignomialTerm_getMonotonicity"

section \<open>Expression tree: the product node (NonlinearExpressions.h)\<close>

text \<open>
  \<^verbatim>\<open>ExpressionTimes::calculate(const VectorDouble&)\<close>. The children are held through
  pointers to the abstract class and \<^verbatim>\<open>C->calculate(point)\<close> is a virtual call: it is
  the first argument. Next to the value the function returns the children on which it made
  that call, in the order of the calls.
\<close>

fun ExpressionTimes_calculate_loop ::
  "('e \<Rightarrow> real) \<Rightarrow> 'e list \<Rightarrow> real \<Rightarrow> 'e list \<Rightarrow> real \<times> 'e list" where
  "ExpressionTimes_calculate_loop calc [] val called = (val, called)"
| "ExpressionTimes_calculate_loop calc (C # rest) val called =
     (let tmpValue = calc C in
      if tmpValue = 0 then (0, called @ [C])
      else ExpressionTimes_calculate_loop calc rest (val * tmpValue) (called @ [C]))"

definition ExpressionTimes_calculate ::
  "('e \<Rightarrow> VectorDouble \<Rightarrow> real) \<Rightarrow> 'e list \<Rightarrow> VectorDouble \<Rightarrow> real \<times> 'e list" where
  "ExpressionTimes_calculate calculate children point =
     ExpressionTimes_calculate_loop (\<lambda>C. calculate C point) children 1 []"

text \<open>
  \<^verbatim>\<open>ExpressionTimes::calculate(const IntervalVector&)\<close>. \<^verbatim>\<open>mc::Interval\<close> belongs to a
  library outside the repository: its product and the interval \<^verbatim>\<open>Interval(1., 1.)\<close> are
  parameters.
\<close>

fun ExpressionTimes_calculate_interval_loop ::
  "('i \<Rightarrow> 'i \<Rightarrow> 'i) \<Rightarrow> ('e \<Rightarrow> 'i) \<Rightarrow> 'e list \<Rightarrow> 'i \<Rightarrow> 'e list \<Rightarrow> 'i \<times> 'e list" where
  "ExpressionTimes_calculate_interval_loop mul calc [] tmpInterval called =
     (tmpInterval, called)"
| "ExpressionTimes_calculate_interval_loop mul calc (C # rest) tmpInterval called =
     ExpressionTimes_calculate_interval_loop mul calc rest
       (mul tmpInterval (calc C)) (called @ [C])"

definition ExpressionTimes_calculate_interval ::
  "('i \<Rightarrow> 'i \<Rightarrow> 'i) \<Rightarrow> 'i \<Rightarrow> ('e \<Rightarrow> 'v \<Rightarrow> 'i) \<Rightarrow> 'e list \<Rightarrow> 'v \<Rightarrow> 'i \<times> 'e list" where
  "ExpressionTimes_calculate_interval mul unit_interval calculate children intervalVector =
     ExpressionTimes_calculate_interval_loop mul (\<lambda>C. calculate C intervalVector)
       children unit_interval []"

text \<open>
  The interval product used to run the function on concrete data: the hull of the four
  products of the end points.
\<close>

definition interval_times :: "real \<times> real \<Rightarrow> real \<times> real \<Rightarrow> real \<times> real" where
  "interval_times a b =
     (min (min (fst a * fst b) (fst a * snd b)) (min (snd a * fst b) (snd a * snd b)),
      max (max (fst a * fst b) (fst a * snd b)) (max (snd a * fst b) (snd a * snd b)))"

section \<open>Task graph and solution strategies\<close>

type_synonym TaskPtr = nat

text \<open>
  A task object, as the constructors of the strategies create it: the class and the
  arguments of its constructor next to \<open>env\<close>. A \<^verbatim>\<open>TaskSequential\<close> holds the list of its
  sub-tasks.
\<close>

datatype TaskBase =
    TaskSequential "TaskPtr list"
  | TaskInitializeDualSolver bool
  | TaskReformulateProblem
  | TaskFindInteriorPoint
  | TaskCreateDualProblem
  | TaskInitializeLinesearch
  | TaskInitializeIteration
  | TaskAddHyperplanes
  | TaskExecuteRelaxationStrategy
  | TaskPresolve
  | TaskSolveIteration
  | TaskSelectPrimalCandidatesFromSolutionPool
  | TaskSelectPrimalCandidatesFromLinesearch
  | TaskPrintIterationReport
  | TaskRepairInfeasibleDualProblem string string
  | TaskCheckAbsoluteGap string
  | TaskCheckRelativeGap string
  | TaskCheckIterationLimit string
  | TaskCheckTimeLimit string
  | TaskCheckUserTermination string
  | TaskCheckConstraintTolerance string
  | TaskCheckIterationError string
  | TaskCheckMaxNumberOfPrimalReductionCuts string
  | TaskCheckPrimalStagnation string string
  | TaskAddPrimalReductionCut string string
  | TaskCheckDualStagnation string
  | TaskSelectPrimalFixedNLPPointsFromSolutionPool
  | TaskSelectPrimalCandidatesFromNLP
  | TaskUpdateInteriorPoint
  | TaskSelectHyperplanePointsESH
  | TaskSelectHyperplanePointsECP
  | TaskSelectHyperplanePointsByObjectiveLinesearch
  | TaskAddIntegerCuts
  | TaskGoto string
  | TaskTerminate

text \<open>
  Modelled from the spec: \<^verbatim>\<open>TaskHandler\<close> is not among the sources. The task graph is an
  ordered registry of bindings of a name to a task, plus a movable cursor. Every binding
  occupies its own slot in the execution order and names are not deduplicated; the initial
  state is the first task added; a cursor beyond the end of the registry yields no task;
  the default transition is to the next slot in registration order; a redirection moves
  the cursor to the slot bound to the named target. The spec does not say which slot when
  the name is bound more than once, nor what happens when it is not bound: the model takes
  the first such slot, and leaves the cursor where it is.
\<close>

record TaskHandler =
  taskIDMap :: "(string \<times> TaskPtr) list"
  cursor :: nat

definition TaskHandler_init :: TaskHandler where
  "TaskHandler_init = \<lparr>taskIDMap = [], cursor = 0\<rparr>"

definition TaskHandler_addTask :: "TaskPtr \<Rightarrow> string \<Rightarrow> TaskHandler \<Rightarrow> TaskHandler" where
  "TaskHandler_addTask task taskID h = h\<lparr>taskIDMap := taskIDMap h @ [(taskID, task)]\<rparr>"

definition TaskHandler_getNextTask :: "TaskHandler \<Rightarrow> (TaskPtr \<times> TaskHandler) option" where
  "TaskHandler_getNextTask h =
     (if cursor h < length (taskIDMap h)
      then Some (snd (taskIDMap h ! cursor h), h\<lparr>cursor := cursor h + 1\<rparr>)
      else None)"

fun slot_of :: "string \<Rightarrow> (string \<times> TaskPtr) list \<Rightarrow> nat option" where
  "slot_of taskID [] = None"
| "slot_of taskID (b # rest) =
     (if fst b = taskID then Some 0 else map_option Suc (slot_of taskID rest))"

definition TaskHandler_setNextTask :: "string \<Rightarrow> TaskHandler \<Rightarrow> TaskHandler" where
  "TaskHandler_setNextTask taskID h =
     (case slot_of taskID (taskIDMap h) of
        Some i \<Rightarrow> h\<lparr>cursor := i\<rparr>
      | None \<Rightarrow> h)"

text \<open>
  The settings are read by name and category (\<^verbatim>\<open>getIntSetting\<close> and
  \<^verbatim>\<open>getBoolSetting\<close> in the single-tree strategy, \<^verbatim>\<open>getSetting<int>\<close> and
  \<^verbatim>\<open>getSetting<bool>\<close> in the NLP strategy). The values of the enumerations that the
  constructors compare settings with are declared in \<^verbatim>\<open>Enums.h\<close>, which is not among
  the sources: they are the fields of \<open>Enums\<close>, a parameter of the constructors. The
  classification of the objective function is kept as the number of its enumerator.
\<close>

record Settings =
  getIntSetting :: "string \<Rightarrow> string \<Rightarrow> int"
  getBoolSetting :: "string \<Rightarrow> string \<Rightarrow> bool"

record Enums =
  ES_HyperplaneCutStrategy_ESH :: int
  ES_MIPPresolveStrategy_Never :: int
  ES_ConvexityIdentificationStrategy_AssumeConvex :: int
  E_ObjectiveFunctionClassification_Quadratic :: int
  E_ProblemConvexity_Convex :: int

record ProblemProperties =
  numberOfNonlinearConstraints :: int
  isDiscrete :: bool
  problem_convexity :: int

record Problem =
  properties :: ProblemProperties
  objectiveFunction_classification :: int

text \<open>
  The part of the environment that the constructors use. \<open>objects\<close> is the heap of the
  task objects made by \<^verbatim>\<open>new\<close>: a \<open>TaskPtr\<close> is a position in it.
\<close>

record Environment =
  settings :: Settings
  reformulatedProblem :: Problem
  tasks :: TaskHandler
  objects :: "TaskBase list"
  timing :: "(string \<times> string) list"

definition createTimer :: "string \<Rightarrow> string \<Rightarrow> Environment \<Rightarrow> Environment" where
  "createTimer timerName description env = env\<lparr>timing := timing env @ [(timerName, description)]\<rparr>"

definition new :: "TaskBase \<Rightarrow> Environment \<Rightarrow> TaskPtr \<times> Environment" where
  "new task env = (length (objects env), env\<lparr>objects := objects env @ [task]\<rparr>)"

definition addTask :: "TaskPtr \<Rightarrow> string \<Rightarrow> Environment \<Rightarrow> Environment" where
  "addTask task taskID env = env\<lparr>tasks := TaskHandler_addTask task taskID (tasks env)\<rparr>"

text \<open>
  \<^verbatim>\<open>dynamic_cast<TaskSequential*>(t)->addTask(sub)\<close>: the sub-task is appended to the
  list of the sequential task. On an object of another class the cast gives a null pointer;
  the constructors only apply it to the object they made as a \<^verbatim>\<open>TaskSequential\<close>.
\<close>

definition TaskSequential_addTask :: "TaskPtr \<Rightarrow> TaskPtr \<Rightarrow> Environment \<Rightarrow> Environment" where
  "TaskSequential_addTask t sub env =
     (case objects env ! t of
        TaskSequential subs \<Rightarrow> env\<lparr>objects := (objects env)[t := TaskSequential (subs @ [sub])]\<rparr>
      | _ \<Rightarrow> env)"

text \<open>The constructor of \<^verbatim>\<open>SolutionStrategySingleTree\<close>.\<close>

definition SolutionStrategySingleTree :: "Enums \<Rightarrow> Environment \<Rightarrow> Environment" where
  "SolutionStrategySingleTree K envPtr =
    (let env = createTimer ''ProblemInitialization'' '' - problem initialization'' envPtr;
         env = createTimer ''ProblemReformulation'' '' - problem reformulation'' env;
         env = createTimer ''InteriorPointSearch'' '' - interior point search'' env;
         env = createTimer ''DualProblemsRelaxed'' ''   - solving relaxed problems'' env;
         env = createTimer ''DualStrategy'' '' - dual strategy'' env;
         env = createTimer ''DualProblemsDiscrete'' ''   - solving MIP problems'' env;
         env = createTimer ''DualCutGenerationRootSearch''
                 ''   - root search for constraint cuts'' env;
         env = createTimer ''DualObjectiveRootSearch'' ''   - root search for objective cut'' env;
         env = createTimer ''PrimalStrategy'' '' - primal strategy'' env;
         env = createTimer ''PrimalBoundStrategyNLP'' ''   - solving NLP problems'' env;
         env = createTimer ''PrimalBoundStrategyRootSearch'' ''   - performing root searches'' env;
         (tFinalizeSolution, env) = new (TaskSequential []) env;
         (tInitMIPSolver, env) = new (TaskInitializeDualSolver True) env;
         env = addTask tInitMIPSolver ''InitMIPSolver'' env;
         (tReformulateProblem, env) = new TaskReformulateProblem env;
         env = addTask tReformulateProblem ''ReformulateProb'' env;
         env = (if getIntSetting (settings env) ''CutStrategy'' ''Dual''
                     = ES_HyperplaneCutStrategy_ESH K
                   \<and> numberOfNonlinearConstraints (properties (reformulatedProblem env)) > 0
                then (let (tFindIntPoint, env) = new TaskFindInteriorPoint env
                      in addTask tFindIntPoint ''FindIntPoint'' env)
                else env);
         (tCreateDualProblem, env) = new TaskCreateDualProblem env;
         env = addTask tCreateDualProblem ''CreateDualProblem'' env;
         (tInitializeLinesearch, env) = new TaskInitializeLinesearch env;
         env = addTask tInitializeLinesearch ''InitializeLinesearch'' env;
         (tInitializeIteration, env) = new TaskInitializeIteration env;
         env = addTask tInitializeIteration ''InitIter'' env;
         (tAddHPs, env) = new TaskAddHyperplanes env;
         env = addTask tAddHPs ''AddHPs'' env;
         env = (if getBoolSetting (settings env) ''Relaxation.Use'' ''Dual''
                then (let (tExecuteRelaxStrategy, env) = new TaskExecuteRelaxationStrategy env
                      in addTask tExecuteRelaxStrategy ''ExecRelaxStrategyInitial'' env)
                else env);
         env = (if getIntSetting (settings env) ''MIP.Presolve.Frequency'' ''Dual''
                     \<noteq> ES_MIPPresolveStrategy_Never K
                then (let (tPresolve, env) = new TaskPresolve env
                      in addTask tPresolve ''Presolve'' env)
                else env);
         (tSolveIteration, env) = new TaskSolveIteration env;
         env = addTask tSolveIteration ''SolveIter'' env;
         (tSelectPrimSolPool, env) = new TaskSelectPrimalCandidatesFromSolutionPool env;
         env = addTask tSelectPrimSolPool ''SelectPrimSolPool'' env;
         env = TaskSequential_addTask tFinalizeSolution tSelectPrimSolPool env;
         env = (if getBoolSetting (settings env) ''Linesearch.Use'' ''Primal''
                   \<and> numberOfNonlinearConstraints (properties (reformulatedProblem env)) > 0
                then (let (tSelectPrimLinesearch, env) =
                            new TaskSelectPrimalCandidatesFromLinesearch env;
                          env = addTask tSelectPrimLinesearch ''SelectPrimLinesearch'' env
                      in TaskSequential_addTask tFinalizeSolution tSelectPrimLinesearch env)
                else env);
         (tPrintIterReport, env) = new TaskPrintIterationReport env;
         env = addTask tPrintIterReport ''PrintIterReport'' env;
         env = (if getIntSetting (settings env) ''Convexity'' ''Strategy''
                     \<noteq> ES_ConvexityIdentificationStrategy_AssumeConvex K
                then (let (tRepairInfeasibility, env) =
                            new (TaskRepairInfeasibleDualProblem ''SolveIter'' ''CheckAbsGap'') env
                      in addTask tRepairInfeasibility ''RepairInfeasibility'' env)
                else env);
         (tCheckAbsGap, env) = new (TaskCheckAbsoluteGap ''FinalizeSolution'') env;
         env = addTask tCheckAbsGap ''CheckAbsGap'' env;
         (tCheckRelGap, env) = new (TaskCheckRelativeGap ''FinalizeSolution'') env;
         env = addTask tCheckRelGap ''CheckRelGap'' env;
         (tCheckIterLim, env) = new (TaskCheckIterationLimit ''FinalizeSolution'') env;
         env = addTask tCheckIterLim ''CheckIterLim'' env;
         (tCheckTimeLim, env) = new (TaskCheckTimeLimit ''FinalizeSolution'') env;
         env = addTask tCheckTimeLim ''CheckTimeLim'' env;
         (tCheckConstrTol, env) = new (TaskCheckConstraintTolerance ''FinalizeSolution'') env;
         env = addTask tCheckConstrTol ''CheckConstrTol'' env;
         (tCheckIterError, env) = new (TaskCheckIterationError ''FinalizeSolution'') env;
         env = addTask tCheckIterError ''CheckIterError'' env;
         (tCheckMaxNumberOfObjectiveCuts, env) =
            new (TaskCheckMaxNumberOfPrimalReductionCuts ''FinalizeSolution'') env;
         env = addTask tCheckMaxNumberOfObjectiveCuts ''CheckMaxObjectiveCuts'' env;
         (tCheckPrimalStag, env) =
            new (TaskCheckPrimalStagnation ''AddObjectiveCut'' ''CheckDualStag'') env;
         env = addTask tCheckPrimalStag ''CheckPrimalStag'' env;
         (tAddObjectiveCut, env) =
            new (TaskAddPrimalReductionCut ''CheckDualStag'' ''CheckDualStag'') env;
         env = addTask tAddObjectiveCut ''AddObjectiveCut'' env;
         (tCheckDualStag, env) = new (TaskCheckDualStagnation ''FinalizeSolution'') env;
         env = addTask tCheckDualStag ''CheckDualStag'' env;
         env = (if getBoolSetting (settings env) ''FixedInteger.Use'' ''Primal''
                   \<and> isDiscrete (properties (reformulatedProblem env))
                then (let (tSelectPrimFixedNLPSolPool, env) =
                            new TaskSelectPrimalFixedNLPPointsFromSolutionPool env;
                          env = addTask tSelectPrimFixedNLPSolPool ''SelectPrimFixedNLPSolPool'' env;
                          env = TaskSequential_addTask tFinalizeSolution
                                  tSelectPrimFixedNLPSolPool env;
                          (tSelectPrimNLPCheck, env) = new TaskSelectPrimalCandidatesFromNLP env;
                          env = addTask tSelectPrimNLPCheck ''SelectPrimNLPCheck'' env;
                          env = TaskSequential_addTask tFinalizeSolution tSelectPrimNLPCheck env;
                          env = addTask tCheckAbsGap ''CheckAbsGap'' env
                      in addTask tCheckRelGap ''CheckRelGap'' env)
                else env);
         env = addTask tInitializeIteration ''InitIter2'' env;
         env = (if getBoolSetting (settings env) ''Relaxation.Use'' ''Dual''
                then (let (tExecuteRelaxStrategy, env) = new TaskExecuteRelaxationStrategy env
                      in addTask tExecuteRelaxStrategy ''ExecRelaxStrategy'' env)
                else env);
         env = (if getIntSetting (settings env) ''CutStrategy'' ''Dual''
                     = ES_HyperplaneCutStrategy_ESH K
                then (let (tUpdateInteriorPoint, env) = new TaskUpdateInteriorPoint env;
                          env = addTask tUpdateInteriorPoint ''UpdateInteriorPoint'' env;
                          (tSelectHPPts, env) = new TaskSelectHyperplanePointsESH env
                      in addTask tSelectHPPts ''SelectHPPts'' env)
                else (let (tSelectHPPts, env) = new TaskSelectHyperplanePointsECP env
                      in addTask tSelectHPPts ''SelectHPPts'' env));
         env = (if objectiveFunction_classification (reformulatedProblem env)
                     > E_ObjectiveFunctionClassification_Quadratic K
                then (let (tSelectObjectiveHPPts, env) =
                            new TaskSelectHyperplanePointsByObjectiveLinesearch env
                      in addTask tSelectObjectiveHPPts ''SelectObjectiveHPPts'' env)
                else env);
         env = (if getBoolSetting (settings env) ''HyperplaneCuts.UseIntegerCuts'' ''Dual''
                then (let (tAddICs, env) = new TaskAddIntegerCuts env
                      in addTask tAddICs ''AddICs'' env)
                else env);
         env = addTask tAddHPs ''AddHPs'' env;
         (tGoto, env) = new (TaskGoto ''SolveIter'') env;
         env = addTask tGoto ''Goto'' env;
         env = addTask tFinalizeSolution ''FinalizeSolution'' env;
         env = (if getIntSetting (settings env) ''Convexity'' ''Strategy''
                     \<noteq> ES_ConvexityIdentificationStrategy_AssumeConvex K
                then (let (tAddObjectiveCutFinal, env) =
                            new (TaskAddPrimalReductionCut ''InitIter2'' ''Terminate'') env
                      in TaskSequential_addTask tFinalizeSolution tAddObjectiveCutFinal env)
                else env);
         (tTerminate, env) = new TaskTerminate env
     in addTask tTerminate ''Terminate'' env)"

text \<open>The constructor of \<^verbatim>\<open>SolutionStrategyNLP\<close>.\<close>

definition SolutionStrategyNLP :: "Enums \<Rightarrow> Environment \<Rightarrow> Environment" where
  "SolutionStrategyNLP K envPtr =
    (let env = createTimer ''InteriorPointSearch'' '' - interior point search'' envPtr;
         env = createTimer ''DualStrategy'' '' - dual strategy'' env;
         env = createTimer ''DualProblemsRelaxed'' ''   - solving relaxed problems'' env;
         env = createTimer ''DualProblemsDiscrete'' ''   - solving MIP problems'' env;
         env = createTimer ''DualCutGenerationRootSearch''
                 ''   - root search for constraint cuts'' env;
         env = createTimer ''DualObjectiveRootSearch'' ''   - root search for objective cut'' env;
         env = createTimer ''PrimalStrategy'' '' - primal strategy'' env;
         env = createTimer ''PrimalBoundStrategyRootSearch'' ''   - performing root searches'' env;
         (tFinalizeSolution, env) = new (TaskSequential []) env;
         (tInitMIPSolver, env) = new (TaskInitializeDualSolver False) env;
         env = addTask tInitMIPSolver ''InitMIPSolver'' env;
         env = (if getIntSetting (settings env) ''CutStrategy'' ''Dual''
                     = ES_HyperplaneCutStrategy_ESH K
                   \<and> numberOfNonlinearConstraints (properties (reformulatedProblem env)) > 0
                then (let (tFindIntPoint, env) = new TaskFindInteriorPoint env
                      in addTask tFindIntPoint ''FindIntPoint'' env)
                else env);
         (tCreateDualProblem, env) = new TaskCreateDualProblem env;
         env = addTask tCreateDualProblem ''CreateDualProblem'' env;
         (tInitializeLinesearch, env) = new TaskInitializeLinesearch env;
         env = addTask tInitializeLinesearch ''InitializeLinesearch'' env;
         (tInitializeIteration, env) = new TaskInitializeIteration env;
         env = addTask tInitializeIteration ''InitIter'' env;
         (tAddHPs, env) = new TaskAddHyperplanes env;
         env = addTask tAddHPs ''AddHPs'' env;
         env = (if getIntSetting (settings env) ''MIP.Presolve.Frequency'' ''Dual''
                     \<noteq> ES_MIPPresolveStrategy_Never K
                then (let (tPresolve, env) = new TaskPresolve env
                      in addTask tPresolve ''Presolve'' env)
                else env);
         (tSolveIteration, env) = new TaskSolveIteration env;
         env = addTask tSolveIteration ''SolveIter'' env;
         (tSelectPrimSolPool, env) = new TaskSelectPrimalCandidatesFromSolutionPool env;
         env = addTask tSelectPrimSolPool ''SelectPrimSolPool'' env;
         env = TaskSequential_addTask tFinalizeSolution tSelectPrimSolPool env;
         env = (if getBoolSetting (settings env) ''Linesearch.Use'' ''Primal''
                   \<and> numberOfNonlinearConstraints (properties (reformulatedProblem env)) > 0
                then (let (tSelectPrimLinesearch, env) =
                            new TaskSelectPrimalCandidatesFromLinesearch env;
                          env = addTask tSelectPrimLinesearch ''SelectPrimLinesearch'' env
                      in TaskSequential_addTask tFinalizeSolution tSelectPrimLinesearch env)
                else env);
         (tPrintIterReport, env) = new TaskPrintIterationReport env;
         env = addTask tPrintIterReport ''PrintIterReport'' env;
         env = (if getIntSetting (settings env) ''Convexity'' ''Strategy''
                     \<noteq> ES_ConvexityIdentificationStrategy_AssumeConvex K
                   \<and> problem_convexity (properties (reformulatedProblem env))
                     \<noteq> E_ProblemConvexity_Convex K
                then (let (tRepairInfeasibility, env) =
                            new (TaskRepairInfeasibleDualProblem ''SolveIter'' ''CheckAbsGap'') env
                      in addTask tRepairInfeasibility ''RepairInfeasibility'' env)
                else env);
         (tCheckAbsGap, env) = new (TaskCheckAbsoluteGap ''FinalizeSolution'') env;
         env = addTask tCheckAbsGap ''CheckAbsGap'' env;
         (tCheckRelGap, env) = new (TaskCheckRelativeGap ''FinalizeSolution'') env;
         env = addTask tCheckRelGap ''CheckRelGap'' env;
         (tCheckIterLim, env) = new (TaskCheckIterationLimit ''FinalizeSolution'') env;
         env = addTask tCheckIterLim ''CheckIterLim'' env;
         (tCheckTimeLim, env) = new (TaskCheckTimeLimit ''FinalizeSolution'') env;
         env = addTask tCheckTimeLim ''CheckTimeLim'' env;
         (tCheckUserTerm, env) = new (TaskCheckUserTermination ''FinalizeSolution'') env;
         env = addTask tCheckUserTerm ''CheckUserTermination'' env;
         (tCheckIterError, env) = new (TaskCheckIterationError ''FinalizeSolution'') env;
         env = addTask tCheckIterError ''CheckIterError'' env;
         (tCheckConstrTol, env) = new (TaskCheckConstraintTolerance ''FinalizeSolution'') env;
         env = addTask tCheckConstrTol ''CheckConstrTol'' env;
         (tCheckPrimalStag, env) =
            new (TaskCheckPrimalStagnation ''AddObjectiveCut'' ''CheckDualStag'') env;
         env = addTask tCheckPrimalStag ''CheckPrimalStag'' env;
         (tAddObjectiveCut, env) =
            new (TaskAddPrimalReductionCut ''CheckDualStag'' ''CheckDualStag'') env;
         env = addTask tAddObjectiveCut ''AddObjectiveCut'' env;
         (tCheckDualStag, env) = new (TaskCheckDualStagnation ''FinalizeSolution'') env;
         env = addTask tCheckDualStag ''CheckDualStag'' env;
         env = addTask tInitializeIteration ''InitIter2'' env;
         env = (if getIntSetting (settings env) ''CutStrategy'' ''Dual''
                     = ES_HyperplaneCutStrategy_ESH K
                then (let (tUpdateInteriorPoint, env) = new TaskUpdateInteriorPoint env;
                          env = addTask tUpdateInteriorPoint ''UpdateInteriorPoint'' env;
                          (tSelectHPPts, env) = new TaskSelectHyperplanePointsESH env
                      in addTask tSelectHPPts ''SelectHPPts'' env)
                else (let (tSelectHPPts, env) = new TaskSelectHyperplanePointsECP env
                      in addTask tSelectHPPts ''SelectHPPts'' env));
         env = (if objectiveFunction_classification (reformulatedProblem env)
                     > E_ObjectiveFunctionClassification_Quadratic K
                then (let (tSelectObjectiveHPPts, env) =
                            new TaskSelectHyperplanePointsByObjectiveLinesearch env
                      in addTask tSelectObjectiveHPPts ''SelectObjectiveHPPts'' env)
                else env);
         env = addTask tAddHPs ''AddHPs'' env;
         (tGoto, env) = new (TaskGoto ''SolveIter'') env;
         env = addTask tGoto ''Goto'' env;
         env = addTask tFinalizeSolution ''FinalizeSolution'' env;
         env = (if getIntSetting (settings env) ''Convexity'' ''Strategy''
                     \<noteq> ES_ConvexityIdentificationStrategy_AssumeConvex K
                   \<and> problem_convexity (properties (reformulatedProblem env))
                     \<noteq> E_ProblemConvexity_Convex K
                then (let (tAddObjectiveCutFinal, env) =
                            new (TaskAddPrimalReductionCut ''InitIter2'' ''Terminate'') env
                      in TaskSequential_addTask tFinalizeSolution tAddObjectiveCutFinal env)
                else env);
         (tTerminate, env) = new TaskTerminate env
     in addTask tTerminate ''Terminate'' env)"

text \<open>
  \<^verbatim>\<open>solveProblem\<close>, the same loop in both strategies. \<^verbatim>\<open>getNextTask\<close> and the virtual
  \<^verbatim>\<open>getType\<close> and \<^verbatim>\<open>run\<close> of the tasks are not among the sources and are parameters;
  so is the output channel (\<^verbatim>\<open>outputInfo\<close> in the single-tree strategy,
  \<^verbatim>\<open>outputDebug\<close> in the NLP strategy), which receives the message without its
  box-drawing prefix. The loop need not end: the result is \<open>None\<close> when it does not, and
  the returned boolean with the final state when it does.
\<close>

partial_function (option) solveProblem ::
  "('s \<Rightarrow> ('t \<times> 's) option) \<Rightarrow> ('t \<Rightarrow> string) \<Rightarrow> ('t \<Rightarrow> 's \<Rightarrow> 's) \<Rightarrow> (string \<Rightarrow> 's \<Rightarrow> 's)
     \<Rightarrow> 's \<Rightarrow> (bool \<times> 's) option" where
  "solveProblem getNextTask getType run output env =
     (case getNextTask env of
        None \<Rightarrow> Some (True, env)
      | Some (nextTask, env1) \<Rightarrow>
          solveProblem getNextTask getType run output
            (output (''Finished task: '' @ getType nextTask)
               (run nextTask
                  (output (''Started task:  '' @ getType nextTask) env1))))"

definition SolutionStrategySingleTree_solveProblem ::
  "('s \<Rightarrow> ('t \<times> 's) option) \<Rightarrow> ('t \<Rightarrow> string) \<Rightarrow> ('t \<Rightarrow> 's \<Rightarrow> 's) \<Rightarrow> (string \<Rightarrow> 's \<Rightarrow> 's)
     \<Rightarrow> 's \<Rightarrow> (bool \<times> 's) option" where
  "SolutionStrategySingleTree_solveProblem getNextTask getType run outputInfo =
     solveProblem getNextTask getType run outputInfo"

definition SolutionStrategyNLP_solveProblem ::
  "('s \<Rightarrow> ('t \<times> 's) option) \<Rightarrow> ('t \<Rightarrow> string) \<Rightarrow> ('t \<Rightarrow> 's \<Rightarrow> 's) \<Rightarrow> (string \<Rightarrow> 's \<Rightarrow> 's)
     \<Rightarrow> 's \<Rightarrow> (bool \<times> 's) option" where
  "SolutionStrategyNLP_solveProblem getNextTask getType run outputDebug =
     solveProblem getNextTask getType run outputDebug"

text \<open>
  One pass of the loop body, and the state after \<open>n\<close> passes (\<open>None\<close> when the cursor
  yielded no task before).
\<close>

definition solveProblem_step ::
  "('s \<Rightarrow> ('t \<times> 's) option) \<Rightarrow> ('t \<Rightarrow> string) \<Rightarrow> ('t \<Rightarrow> 's \<Rightarrow> 's) \<Rightarrow> (string \<Rightarrow> 's \<Rightarrow> 's)
     \<Rightarrow> 's \<Rightarrow> 's option" where
  "solveProblem_step getNextTask getType run output env =
     (case getNextTask env of
        None \<Rightarrow> None
      | Some (nextTask, env1) \<Rightarrow>
          Some (output (''Finished task: '' @ getType nextTask)
                  (run nextTask (output (''Started task:  '' @ getType nextTask) env1))))"

fun solveProblem_steps ::
  "('s \<Rightarrow> ('t \<times> 's) option) \<Rightarrow> ('t \<Rightarrow> string) \<Rightarrow> ('t \<Rightarrow> 's \<Rightarrow> 's) \<Rightarrow> (string \<Rightarrow> 's \<Rightarrow> 's)
     \<Rightarrow> nat \<Rightarrow> 's \<Rightarrow> 's option" where
  "solveProblem_steps getNextTask getType run output 0 env = Some env"
| "solveProblem_steps getNextTask getType run output (Suc n) env =
     (case solveProblem_step getNextTask getType run output env of
        None \<Rightarrow> None
      | Some env' \<Rightarrow> solveProblem_steps getNextTask getType run output n env')"

text \<open>
  Modelled from the spec: the classes of the tasks are not among the sources. A Goto task
  unconditionally redirects the cursor to its named target; the run of the other tasks is
  left out here (they work on solver state that is not part of this model), so that
  \<open>TaskBase_run_cursor\<close> is the effect on the cursor of the Goto task alone.
\<close>

definition Environment_getNextTask :: "Environment \<Rightarrow> (TaskPtr \<times> Environment) option" where
  "Environment_getNextTask env =
     (case TaskHandler_getNextTask (tasks env) of
        None \<Rightarrow> None
      | Some (task, h) \<Rightarrow> Some (task, env\<lparr>tasks := h\<rparr>))"

definition TaskBase_run_cursor :: "TaskPtr \<Rightarrow> Environment \<Rightarrow> Environment" where
  "TaskBase_run_cursor task env =
     (case objects env ! task of
        TaskGoto taskID \<Rightarrow> env\<lparr>tasks := TaskHandler_setNextTask taskID (tasks env)\<rparr>
      | _ \<Rightarrow> env)"

text \<open>
  Observations of an environment that the statements below use: the names bound in the
  registry in execution order, the bindings themselves, the number of task objects, that
  a pointer is valid and points to a given object, and that an object has been created.
\<close>

definition taskNames :: "Environment \<Rightarrow> string list" where
  "taskNames env = map fst (taskIDMap (tasks env))"

definition slots :: "Environment \<Rightarrow> (string \<times> TaskPtr) list" where
  "slots env = taskIDMap (tasks env)"

definition heapsize :: "Environment \<Rightarrow> nat" where
  "heapsize env = length (objects env)"

definition holds_object :: "TaskPtr \<Rightarrow> TaskBase \<Rightarrow> Environment \<Rightarrow> bool" where
  "holds_object p task env = (p < length (objects env) \<and> objects env ! p = task)"

definition allocated :: "TaskBase \<Rightarrow> Environment \<Rightarrow> bool" where
  "allocated task env = (task \<in> set (objects env))"

text \<open>
  Concrete environments on which the functions are run below: default settings and
  problem, an empty registry and no task object; a registry whose only task is a Goto
  that targets its own name; a registry of three tasks without redirection.
\<close>

definition settings_example :: "bool \<Rightarrow> int \<Rightarrow> Settings" where
  "settings_example b i = \<lparr>getIntSetting = (\<lambda>category name. i), getBoolSetting = (\<lambda>category name. b)\<rparr>"

definition problem_example :: "int \<Rightarrow> bool \<Rightarrow> Problem" where
  "problem_example n d =
     \<lparr>properties = \<lparr>numberOfNonlinearConstraints = n, isDiscrete = d, problem_convexity = 0\<rparr>,
      objectiveFunction_classification = 0\<rparr>"

definition env_example :: "bool \<Rightarrow> int \<Rightarrow> int \<Rightarrow> bool \<Rightarrow> Environment" where
  "env_example b i n d =
     \<lparr>settings = settings_example b i, reformulatedProblem = problem_example n d,
      tasks = TaskHandler_init, objects = [], timing = []\<rparr>"

definition enums_example :: Enums where
  "enums_example =
     \<lparr>ES_HyperplaneCutStrategy_ESH = 0, ES_MIPPresolveStrategy_Never = 0,
      ES_ConvexityIdentificationStrategy_AssumeConvex = 0,
      E_ObjectiveFunctionClassification_Quadratic = 2, E_ProblemConvexity_Convex = 0\<rparr>"

definition goto_env :: Environment where
  "goto_env =
     \<lparr>settings = settings_example False 0, reformulatedProblem = problem_example 0 False,
      tasks = \<lparr>taskIDMap = [(''Goto'', 0)], cursor = 0\<rparr>,
      objects = [TaskGoto ''Goto''], timing = []\<rparr>"

definition abc_env :: Environment where
  "abc_env =
     \<lparr>settings = settings_example False 0, reformulatedProblem = problem_example 0 False,
      tasks = \<lparr>taskIDMap = [(''A'', 0), (''B'', 1), (''C'', 2)], cursor = 0\<rparr>,
      objects = [TaskSolveIteration, TaskPrintIterationReport, TaskTerminate], timing = []\<rparr>"

section \<open>Properties of the term algebra\<close>

subsection \<open>Gradient of a linear collection\<close>

text \<open>
  What the function computes: for each variable, the coefficient of the first term on that
  variable whose coefficient is not zero.
\<close>

lemma LinearTerms_calculateGradient_loop_first:
  "LinearTerms_calculateGradient_loop ts gradient
     = map_of (map (\<lambda>T. (variable T, coefficient T)) (filter (\<lambda>T. coefficient T \<noteq> 0) ts))
         ++ gradient"
proof (induction ts arbitrary: gradient)
  case Nil
  then show ?case by simp
next
  case (Cons T ts)
  show ?case
  proof (cases "coefficient T = 0")
    case True
    then show ?thesis by (simp add: Cons.IH)
  next
    case False
    then show ?thesis
      by (cases "gradient (variable T)")
         (auto simp: Cons.IH map_insert_def map_add_def fun_eq_iff split: option.splits)
  qed
qed

lemma LinearTerms_calculateGradient_first:
  "LinearTerms_calculateGradient s point
     = map_of (map (\<lambda>T. (variable T, coefficient T))
         (filter (\<lambda>T. coefficient T \<noteq> 0) (items s)))"
  by (simp add: LinearTerms_calculateGradient_def LinearTerms_calculateGradient_loop_first)

lemma LinearTerms_calculateGradient_single:
  "c \<noteq> 0 \<Longrightarrow>
   LinearTerms_calculateGradient
     \<lparr>items = [\<lparr>coefficient = c, variable = x\<rparr>], convexity = cv, monotonicity = mo\<rparr> point
     = [x \<mapsto> c]"
  by (simp add: LinearTerms_calculateGradient_def map_insert_def)

text \<open>
  C1. The claim: the gradient of a LinearTerms collection maps each variable to the sum of
  the coefficients of the terms on that variable, duplicate entries being accumulated by
  addition. The function does not do so: for the two terms 2 x and 3 x on the same
  variable (here the variable 0) the entry of x is 2, the coefficient of the first of
  them, and not 5. The second coefficient is added to the boolean of the pair that
  \<^verbatim>\<open>insert\<close> returned.
\<close>

theorem LinearTerms_calculateGradient_duplicate_variable:
  "LinearTerms_calculateGradient
     \<lparr>items = [\<lparr>coefficient = 2, variable = 0\<rparr>, \<lparr>coefficient = 3, variable = 0\<rparr>],
      convexity = Convexity_NotSet, monotonicity = Monotonicity_NotSet\<rparr> point
   = [0 \<mapsto> 2]"
  by (simp add: LinearTerms_calculateGradient_def map_insert_def)

subsection \<open>What add does to the caches\<close>

text \<open>
  C2, as the claim states it, fails on LinearTerms: after a query of the convexity has
  filled the cache, adding a term leaves the cached convexity in place.
\<close>

theorem LinearTerms_add_keeps_convexity_counterexample:
  "convexity (LinearTerms_add (snd (LinearTerms_getConvexity Terms_init))
                \<lparr>coefficient = 2, variable = 0\<rparr>) \<noteq> Convexity_NotSet"
  by (simp add: LinearTerms_add_def LinearTerms_getConvexity_def Terms_getConvexity_def
      LinearTerms_updateConvexity_def Terms_init_def)

text \<open>
  C2, amended. Adding a term to a QuadraticTerms, MonomialTerms or SignomialTerms
  collection sets the cached convexity and the cached monotonicity to NotSet; adding a term
  to a LinearTerms collection sets the cached monotonicity to NotSet and leaves the cached
  convexity as it was. The next query of a cache that was reset returns what the update
  function computes from the members, the new term included.
\<close>

theorem add_invalidates_caches:
  "convexity (QuadraticTerms_add q qt) = Convexity_NotSet
   \<and> monotonicity (QuadraticTerms_add q qt) = Monotonicity_NotSet
   \<and> convexity (MonomialTerms_add m mt) = Convexity_NotSet
   \<and> monotonicity (MonomialTerms_add m mt) = Monotonicity_NotSet
   \<and> convexity (SignomialTerms_add g gt) = Convexity_NotSet
   \<and> monotonicity (SignomialTerms_add g gt) = Monotonicity_NotSet
   \<and> monotonicity (LinearTerms_add l lt) = Monotonicity_NotSet
   \<and> convexity (LinearTerms_add l lt) = convexity l
   \<and> fst (QuadraticTerms_getConvexity eigenSolver vars (QuadraticTerms_add q qt))
       = convexity (QuadraticTerms_updateConvexity eigenSolver vars (QuadraticTerms_add q qt))
   \<and> fst (MonomialTerms_getConvexity (MonomialTerms_add m mt))
       = convexity (MonomialTerms_updateConvexity (MonomialTerms_add m mt))
   \<and> fst (SignomialTerms_getConvexity (SignomialTerms_add g gt))
       = convexity (SignomialTerms_updateConvexity (SignomialTerms_add g gt))
   \<and> fst (LinearTerms_getMonotonicity (LinearTerms_add l lt))
       = monotonicity (Terms_updateMonotonicity LinearTerm_getMonotonicity (LinearTerms_add l lt))
   \<and> fst (QuadraticTerms_getMonotonicity (QuadraticTerms_add q qt))
       = monotonicity
           (Terms_updateMonotonicity QuadraticTerm_getMonotonicity (QuadraticTerms_add q qt))
   \<and> fst (MonomialTerms_getMonotonicity (MonomialTerms_add m mt))
       = monotonicity
           (Terms_updateMonotonicity MonomialTerm_getMonotonicity (MonomialTerms_add m mt))
   \<and> fst (SignomialTerms_getMonotonicity (SignomialTerms_add g gt))
       = monotonicity
           (Terms_updateMonotonicity SignomialTerm_getMonotonicity (SignomialTerms_add g gt))"
  by (simp add: QuadraticTerms_add_def MonomialTerms_add_def SignomialTerms_add_def
      LinearTerms_add_def QuadraticTerms_getConvexity_def MonomialTerms_getConvexity_def
      SignomialTerms_getConvexity_def LinearTerms_getMonotonicity_def
      QuadraticTerms_getMonotonicity_def MonomialTerms_getMonotonicity_def
      SignomialTerms_getMonotonicity_def Terms_getConvexity_def Terms_getMonotonicity_def
      Let_def)

subsection \<open>Convexity of a signomial term\<close>

text \<open>
  C4. A signomial term with exactly one element, of power exactly 1, has convexity Linear,
  whatever its coefficient.
\<close>

theorem SignomialTerm_single_power_one_Linear:
  "signomial_elements t = [e] \<Longrightarrow> power e = 1 \<Longrightarrow> SignomialTerm_getConvexity t = Convexity_Linear"
  by (simp add: SignomialTerm_getConvexity_def)

theorem SignomialTerm_single_power_one_Linear_witness:
  "SignomialTerm_getConvexity
     \<lparr>coefficient = 2, signomial_elements = [\<lparr>element_variable = 0, power = 1\<rparr>]\<rparr>
     = Convexity_Linear
   \<and> SignomialTerm_getConvexity
     \<lparr>coefficient = - 3, signomial_elements = [\<lparr>element_variable = 0, power = 1\<rparr>]\<rparr>
     = Convexity_Linear
   \<and> SignomialTerm_getConvexity
     \<lparr>coefficient = 0, signomial_elements = [\<lparr>element_variable = 0, power = 1\<rparr>]\<rparr>
     = Convexity_Linear"
  using SignomialTerm_single_power_one_Linear
      [of "\<lparr>coefficient = 2, signomial_elements = [\<lparr>element_variable = 0, power = 1\<rparr>]\<rparr>"
          "\<lparr>element_variable = 0, power = 1\<rparr>"]
    SignomialTerm_single_power_one_Linear
      [of "\<lparr>coefficient = - 3, signomial_elements = [\<lparr>element_variable = 0, power = 1\<rparr>]\<rparr>"
          "\<lparr>element_variable = 0, power = 1\<rparr>"]
    SignomialTerm_single_power_one_Linear
      [of "\<lparr>coefficient = 0, signomial_elements = [\<lparr>element_variable = 0, power = 1\<rparr>]\<rparr>"
          "\<lparr>element_variable = 0, power = 1\<rparr>"]
  by simp

subsection \<open>Aggregate monotonicity\<close>



lemma Terms_updateMonotonicity_fields:
  "items (Terms_updateMonotonicity gm s) = items s"
  "convexity (Terms_updateMonotonicity gm s) = convexity s"
  by (simp_all add: Terms_updateMonotonicity_def split: prod.splits)




lemma Terms_updateMonotonicity_items:
  "items s' = items s \<Longrightarrow>
   monotonicity (Terms_updateMonotonicity gm s') = monotonicity (Terms_updateMonotonicity gm s)"
  by (simp add: Terms_updateMonotonicity_def split: prod.splits)

lemma monotonicity_cache_valid_cong:
  "items s' = items s \<Longrightarrow> monotonicity s' = monotonicity s \<Longrightarrow>
   monotonicity_cache_valid gm s \<Longrightarrow> monotonicity_cache_valid gm s'"
  by (simp add: monotonicity_cache_valid_def Terms_updateMonotonicity_items [of s' s])

lemma monotonicity_cache_valid_NotSet:
  "monotonicity s = Monotonicity_NotSet \<Longrightarrow> monotonicity_cache_valid gm s"
  by (simp add: monotonicity_cache_valid_def)

lemma monotonicity_cache_valid_addAll:
  "monotonicity_cache_valid LinearTerm_getMonotonicity l \<Longrightarrow>
     monotonicity_cache_valid LinearTerm_getMonotonicity (LinearTerms_addAll l ls)"
  "monotonicity_cache_valid QuadraticTerm_getMonotonicity q \<Longrightarrow>
     monotonicity_cache_valid QuadraticTerm_getMonotonicity (QuadraticTerms_addAll q qs)"
  "monotonicity_cache_valid MonomialTerm_getMonotonicity m \<Longrightarrow>
     monotonicity_cache_valid MonomialTerm_getMonotonicity (MonomialTerms_addAll m ms)"
  "monotonicity_cache_valid SignomialTerm_getMonotonicity g \<Longrightarrow>
     monotonicity_cache_valid SignomialTerm_getMonotonicity (SignomialTerms_addAll g gs)"
proof -
  show "monotonicity_cache_valid LinearTerm_getMonotonicity l \<Longrightarrow>
     monotonicity_cache_valid LinearTerm_getMonotonicity (LinearTerms_addAll l ls)"
    by (cases "items ls = []")
       (auto simp: LinearTerms_addAll_def Let_def
          intro: monotonicity_cache_valid_NotSet monotonicity_cache_valid_cong [of _ l])
  show "monotonicity_cache_valid QuadraticTerm_getMonotonicity q \<Longrightarrow>
     monotonicity_cache_valid QuadraticTerm_getMonotonicity (QuadraticTerms_addAll q qs)"
    by (cases "items qs = []")
       (auto simp: QuadraticTerms_addAll_def Let_def
          intro: monotonicity_cache_valid_NotSet monotonicity_cache_valid_cong [of _ q])
  show "monotonicity_cache_valid MonomialTerm_getMonotonicity m \<Longrightarrow>
     monotonicity_cache_valid MonomialTerm_getMonotonicity (MonomialTerms_addAll m ms)"
    by (cases "items ms = []")
       (auto simp: MonomialTerms_addAll_def Let_def
          intro: monotonicity_cache_valid_NotSet monotonicity_cache_valid_cong [of _ m])
  show "monotonicity_cache_valid SignomialTerm_getMonotonicity g \<Longrightarrow>
     monotonicity_cache_valid SignomialTerm_getMonotonicity (SignomialTerms_addAll g gs)"
    by (cases "items gs = []")
       (auto simp: SignomialTerms_addAll_def Let_def
          intro: monotonicity_cache_valid_NotSet monotonicity_cache_valid_cong [of _ g])
qed



lemma QuadraticTerms_updateConvexity_fields:
  "items (QuadraticTerms_updateConvexity eigenSolver vars s) = items s"
  "monotonicity (QuadraticTerms_updateConvexity eigenSolver vars s) = monotonicity s"
  by (simp_all add: QuadraticTerms_updateConvexity_def Let_def split: option.splits prod.splits)

lemma monotonicity_cache_valid_getConvexity:
  "monotonicity_cache_valid LinearTerm_getMonotonicity l \<Longrightarrow>
     monotonicity_cache_valid LinearTerm_getMonotonicity (snd (LinearTerms_getConvexity l))"
  "monotonicity_cache_valid QuadraticTerm_getMonotonicity q \<Longrightarrow>
     monotonicity_cache_valid QuadraticTerm_getMonotonicity
       (snd (QuadraticTerms_getConvexity eigenSolver vars q))"
  "monotonicity_cache_valid MonomialTerm_getMonotonicity m \<Longrightarrow>
     monotonicity_cache_valid MonomialTerm_getMonotonicity (snd (MonomialTerms_getConvexity m))"
  "monotonicity_cache_valid SignomialTerm_getMonotonicity g \<Longrightarrow>
     monotonicity_cache_valid SignomialTerm_getMonotonicity (snd (SignomialTerms_getConvexity g))"
proof -
  show "monotonicity_cache_valid LinearTerm_getMonotonicity l \<Longrightarrow>
     monotonicity_cache_valid LinearTerm_getMonotonicity (snd (LinearTerms_getConvexity l))"
    by (erule monotonicity_cache_valid_cong [rotated 2])
       (simp_all add: LinearTerms_getConvexity_def Terms_getConvexity_def Let_def
          LinearTerms_updateConvexity_def)
  show "monotonicity_cache_valid QuadraticTerm_getMonotonicity q \<Longrightarrow>
     monotonicity_cache_valid QuadraticTerm_getMonotonicity
       (snd (QuadraticTerms_getConvexity eigenSolver vars q))"
    by (erule monotonicity_cache_valid_cong [rotated 2])
       (simp_all add: QuadraticTerms_getConvexity_def Terms_getConvexity_def Let_def
          QuadraticTerms_updateConvexity_fields)
  show "monotonicity_cache_valid MonomialTerm_getMonotonicity m \<Longrightarrow>
     monotonicity_cache_valid MonomialTerm_getMonotonicity (snd (MonomialTerms_getConvexity m))"
    by (erule monotonicity_cache_valid_cong [rotated 2])
       (simp_all add: MonomialTerms_getConvexity_def Terms_getConvexity_def Let_def
          MonomialTerms_updateConvexity_def)
  show "monotonicity_cache_valid SignomialTerm_getMonotonicity g \<Longrightarrow>
     monotonicity_cache_valid SignomialTerm_getMonotonicity (snd (SignomialTerms_getConvexity g))"
    by (erule monotonicity_cache_valid_cong [rotated 2])
       (simp_all add: SignomialTerms_getConvexity_def Terms_getConvexity_def Let_def
          SignomialTerms_updateConvexity_def)
qed



subsection \<open>Convexity of a collection of squares\<close>

lemma updateConvexity_scan_allSquares:
  "allSquares (updateConvexity_scan vars ts st)
     = (allSquares st \<and> (\<forall>t\<in>set ts. firstVariable t = secondVariable t))"
  by (induction ts arbitrary: st) auto

lemma updateConvexity_scan_allPositive:
  "\<forall>t\<in>set ts. firstVariable t = secondVariable t \<Longrightarrow>
   allPositive (updateConvexity_scan vars ts st)
     = (allPositive st \<and> (\<forall>t\<in>set ts. coefficient t \<ge> 0))"
  by (induction ts arbitrary: st) auto

lemma updateConvexity_scan_allNegative:
  "\<forall>t\<in>set ts. firstVariable t = secondVariable t \<Longrightarrow>
   allNegative (updateConvexity_scan vars ts st)
     = (allNegative st \<and> (\<forall>t\<in>set ts. coefficient t \<le> 0))"
  by (induction ts arbitrary: st) auto

lemma QuadraticTerms_updateConvexity_squares:
  assumes "items s \<noteq> []" and "\<forall>t\<in>set (items s). firstVariable t = secondVariable t"
  shows "(\<forall>t\<in>set (items s). coefficient t \<ge> 0) \<Longrightarrow>
           QuadraticTerms_updateConvexity eigenSolver vars s = s\<lparr>convexity := Convexity_Convex\<rparr>"
    and "(\<forall>t\<in>set (items s). coefficient t \<le> 0) \<Longrightarrow> (\<exists>t\<in>set (items s). coefficient t < 0) \<Longrightarrow>
           QuadraticTerms_updateConvexity eigenSolver vars s = s\<lparr>convexity := Convexity_Concave\<rparr>"
  using assms
  by (auto simp: QuadraticTerms_updateConvexity_def Let_def updateConvexity_scan_allSquares
      updateConvexity_scan_allPositive updateConvexity_scan_allNegative)

lemma QuadraticTerms_updateConvexity_items:
  "items s' = items s \<Longrightarrow>
   convexity (QuadraticTerms_updateConvexity eigenSolver vars s')
     = convexity (QuadraticTerms_updateConvexity eigenSolver vars s)"
  by (simp add: QuadraticTerms_updateConvexity_def Let_def split: option.splits prod.splits)

lemma convexity_cache_valid_cong:
  "items s' = items s \<Longrightarrow> convexity s' = convexity s \<Longrightarrow>
   convexity_cache_valid (QuadraticTerms_updateConvexity eigenSolver vars) s \<Longrightarrow>
   convexity_cache_valid (QuadraticTerms_updateConvexity eigenSolver vars) s'"
  by (simp add: convexity_cache_valid_def QuadraticTerms_updateConvexity_items [of s' s])

lemma convexity_cache_valid_NotSet:
  "convexity s = Convexity_NotSet \<Longrightarrow> convexity_cache_valid upd s"
  by (simp add: convexity_cache_valid_def)

text \<open>The cache of the convexity of a QuadraticTerms collection stays valid.\<close>

lemma convexity_cache_valid_init:
  "convexity_cache_valid (QuadraticTerms_updateConvexity eigenSolver vars) QuadraticTerms_init"
  by (simp add: convexity_cache_valid_def QuadraticTerms_init_def)

lemma convexity_cache_valid_add:
  "convexity_cache_valid (QuadraticTerms_updateConvexity eigenSolver vars)
     (QuadraticTerms_add q qt)"
  by (simp add: convexity_cache_valid_def QuadraticTerms_add_def)

lemma convexity_cache_valid_addAll:
  "convexity_cache_valid (QuadraticTerms_updateConvexity eigenSolver vars) q \<Longrightarrow>
   convexity_cache_valid (QuadraticTerms_updateConvexity eigenSolver vars)
     (QuadraticTerms_addAll q qs)"
  by (cases "items qs = []")
     (auto simp: QuadraticTerms_addAll_def Let_def
        intro: convexity_cache_valid_NotSet convexity_cache_valid_cong [of _ q])

lemma convexity_cache_valid_getMonotonicity:
  "convexity_cache_valid (QuadraticTerms_updateConvexity eigenSolver vars) q \<Longrightarrow>
   convexity_cache_valid (QuadraticTerms_updateConvexity eigenSolver vars)
     (snd (QuadraticTerms_getMonotonicity q))"
  by (erule convexity_cache_valid_cong [rotated 2])
     (simp_all add: QuadraticTerms_getMonotonicity_def Terms_getMonotonicity_def Let_def
        Terms_updateMonotonicity_fields)

lemma convexity_cache_valid_getConvexity:
  assumes "convexity_cache_valid (QuadraticTerms_updateConvexity eigenSolver vars) q"
  shows "convexity_cache_valid (QuadraticTerms_updateConvexity eigenSolver vars)
     (snd (QuadraticTerms_getConvexity eigenSolver vars q))"
proof (cases "convexity q = Convexity_NotSet")
  case True
  have "convexity (QuadraticTerms_updateConvexity eigenSolver vars
            (QuadraticTerms_updateConvexity eigenSolver vars q))
      = convexity (QuadraticTerms_updateConvexity eigenSolver vars q)"
    by (rule QuadraticTerms_updateConvexity_items) (rule QuadraticTerms_updateConvexity_fields)
  with True show ?thesis
    by (simp add: convexity_cache_valid_def QuadraticTerms_getConvexity_def
        Terms_getConvexity_def Let_def)
next
  case False
  with assms show ?thesis
    by (simp add: QuadraticTerms_getConvexity_def Terms_getConvexity_def Let_def)
qed

lemma QuadraticTerms_getConvexity_value:
  "convexity_cache_valid (QuadraticTerms_updateConvexity eigenSolver vars) s \<Longrightarrow>
   fst (QuadraticTerms_getConvexity eigenSolver vars s)
     = convexity (QuadraticTerms_updateConvexity eigenSolver vars s)"
  by (auto simp: QuadraticTerms_getConvexity_def Terms_getConvexity_def
      convexity_cache_valid_def Let_def)

lemma QuadraticTerms_getConvexity_state:
  "snd (QuadraticTerms_getConvexity eigenSolver vars s)
     = (if convexity s = Convexity_NotSet
        then QuadraticTerms_updateConvexity eigenSolver vars s else s)"
  by (simp add: QuadraticTerms_getConvexity_def Terms_getConvexity_def Let_def)

text \<open>
  C5, as the claim states it, fails where all coefficients are zero: they are all
  \<open>\<le> 0\<close>, and the collection of the single square \<open>0 * x * x\<close> is classified Convex, not
  Concave, because the test for Convex comes first.
\<close>

theorem QuadraticTerms_zero_square_counterexample:
  "fst (QuadraticTerms_getConvexity (\<lambda>n ts. None)
          (\<lambda>v. \<lparr>index = int v, name = [], type = Continuous\<rparr>)
          (QuadraticTerms_add QuadraticTerms_init
             \<lparr>coefficient = 0, firstVariable = 0, secondVariable = 0, isBilinear = False,
              isSquare = True, isBinary = False\<rparr>))
     = Convexity_Convex
   \<and> fst (QuadraticTerms_getConvexity (\<lambda>n ts. None)
          (\<lambda>v. \<lparr>index = int v, name = [], type = Continuous\<rparr>)
          (QuadraticTerms_add QuadraticTerms_init
             \<lparr>coefficient = 0, firstVariable = 0, secondVariable = 0, isBilinear = False,
              isSquare = True, isBinary = False\<rparr>))
     \<noteq> Convexity_Concave"
  by (simp add: QuadraticTerms_getConvexity_def Terms_getConvexity_def
      QuadraticTerms_updateConvexity_def QuadraticTerms_add_def QuadraticTerms_init_def)

text \<open>
  C5, amended. For a non-empty QuadraticTerms collection whose cached convexity is valid
  (it is after construction, and stays so under add and the getters) and in which every
  term is a square: when all coefficients are \<open>\<ge> 0\<close> (all zero included) getConvexity
  returns Convex; when all coefficients are \<open>\<le> 0\<close> and one of them is negative it
  returns Concave; in both cases the eigenvalue solver is not called.
\<close>

theorem QuadraticTerms_square_shortcut:
  assumes "convexity_cache_valid (QuadraticTerms_updateConvexity eigenSolver vars) s"
    and "items s \<noteq> []"
    and "\<forall>t\<in>set (items s). firstVariable t = secondVariable t"
  shows "((\<forall>t\<in>set (items s). coefficient t \<ge> 0) \<longrightarrow>
            fst (QuadraticTerms_getConvexity eigenSolver vars s) = Convexity_Convex
            \<and> eigenCalls (snd (QuadraticTerms_getConvexity eigenSolver vars s)) = eigenCalls s)
       \<and> ((\<forall>t\<in>set (items s). coefficient t \<le> 0) \<and> (\<exists>t\<in>set (items s). coefficient t < 0) \<longrightarrow>
            fst (QuadraticTerms_getConvexity eigenSolver vars s) = Convexity_Concave
            \<and> eigenCalls (snd (QuadraticTerms_getConvexity eigenSolver vars s)) = eigenCalls s)"
proof (intro conjI impI)
  assume p: "\<forall>t\<in>set (items s). coefficient t \<ge> 0"
  note u = QuadraticTerms_updateConvexity_squares(1) [OF assms(2,3) p, of eigenSolver vars]
  show "fst (QuadraticTerms_getConvexity eigenSolver vars s) = Convexity_Convex"
    by (simp add: QuadraticTerms_getConvexity_value [OF assms(1)] u)
  show "eigenCalls (snd (QuadraticTerms_getConvexity eigenSolver vars s)) = eigenCalls s"
    by (simp add: QuadraticTerms_getConvexity_state u)
next
  assume n: "(\<forall>t\<in>set (items s). coefficient t \<le> 0) \<and> (\<exists>t\<in>set (items s). coefficient t < 0)"
  then have n1: "\<forall>t\<in>set (items s). coefficient t \<le> 0"
    and n2: "\<exists>t\<in>set (items s). coefficient t < 0"
    by blast+
  note u = QuadraticTerms_updateConvexity_squares(2) [OF assms(2,3) n1 n2, of eigenSolver vars]
  show "fst (QuadraticTerms_getConvexity eigenSolver vars s) = Convexity_Concave"
    by (simp add: QuadraticTerms_getConvexity_value [OF assms(1)] u)
  show "eigenCalls (snd (QuadraticTerms_getConvexity eigenSolver vars s)) = eigenCalls s"
    by (simp add: QuadraticTerms_getConvexity_state u)
qed

theorem QuadraticTerms_square_shortcut_witness:
  "fst (QuadraticTerms_getConvexity (\<lambda>n ts. None)
          (\<lambda>v. \<lparr>index = int v, name = [], type = Continuous\<rparr>)
          (QuadraticTerms_add (QuadraticTerms_add QuadraticTerms_init
             \<lparr>coefficient = 1, firstVariable = 0, secondVariable = 0, isBilinear = False,
              isSquare = True, isBinary = False\<rparr>)
             \<lparr>coefficient = 2, firstVariable = 1, secondVariable = 1, isBilinear = False,
              isSquare = True, isBinary = False\<rparr>))
     = Convexity_Convex
   \<and> eigenCalls (snd (QuadraticTerms_getConvexity (\<lambda>n ts. None)
          (\<lambda>v. \<lparr>index = int v, name = [], type = Continuous\<rparr>)
          (QuadraticTerms_add (QuadraticTerms_add QuadraticTerms_init
             \<lparr>coefficient = 1, firstVariable = 0, secondVariable = 0, isBilinear = False,
              isSquare = True, isBinary = False\<rparr>)
             \<lparr>coefficient = 2, firstVariable = 1, secondVariable = 1, isBilinear = False,
              isSquare = True, isBinary = False\<rparr>)))
     = []
   \<and> fst (QuadraticTerms_getConvexity (\<lambda>n ts. None)
          (\<lambda>v. \<lparr>index = int v, name = [], type = Continuous\<rparr>)
          (QuadraticTerms_add (QuadraticTerms_add QuadraticTerms_init
             \<lparr>coefficient = - 1, firstVariable = 0, secondVariable = 0, isBilinear = False,
              isSquare = True, isBinary = False\<rparr>)
             \<lparr>coefficient = 0, firstVariable = 1, secondVariable = 1, isBilinear = False,
              isSquare = True, isBinary = False\<rparr>))
     = Convexity_Concave"
  using QuadraticTerms_square_shortcut
      [OF convexity_cache_valid_add,
       of "QuadraticTerms_add QuadraticTerms_init
             \<lparr>coefficient = 1, firstVariable = 0, secondVariable = 0, isBilinear = False,
              isSquare = True, isBinary = False\<rparr>"
          "\<lparr>coefficient = 2, firstVariable = 1, secondVariable = 1, isBilinear = False,
              isSquare = True, isBinary = False\<rparr>"
          "\<lambda>n ts. None" "\<lambda>v. \<lparr>index = int v, name = [], type = Continuous\<rparr>"]
    QuadraticTerms_square_shortcut
      [OF convexity_cache_valid_add,
       of "QuadraticTerms_add QuadraticTerms_init
             \<lparr>coefficient = - 1, firstVariable = 0, secondVariable = 0, isBilinear = False,
              isSquare = True, isBinary = False\<rparr>"
          "\<lparr>coefficient = 0, firstVariable = 1, secondVariable = 1, isBilinear = False,
              isSquare = True, isBinary = False\<rparr>"
          "\<lambda>n ts. None" "\<lambda>v. \<lparr>index = int v, name = [], type = Continuous\<rparr>"]
  by (simp add: QuadraticTerms_add_def QuadraticTerms_init_def)

subsection \<open>The getters are idempotent\<close>

lemma Terms_updateMonotonicity_set:
  "monotonicity (Terms_updateMonotonicity gm s) \<noteq> Monotonicity_NotSet"
  by (simp add: Terms_updateMonotonicity_def split: prod.splits)

lemma Terms_getMonotonicity_twice:
  "Terms_getMonotonicity gm (snd (Terms_getMonotonicity gm s)) = Terms_getMonotonicity gm s"
  by (simp add: Terms_getMonotonicity_def Let_def Terms_updateMonotonicity_set)

lemma Terms_getConvexity_twice:
  "convexity (upd s) \<noteq> Convexity_NotSet \<Longrightarrow>
   Terms_getConvexity upd (snd (Terms_getConvexity upd s)) = Terms_getConvexity upd s"
  by (simp add: Terms_getConvexity_def Let_def)

lemma QuadraticTerms_updateConvexity_set:
  "convexity (QuadraticTerms_updateConvexity eigenSolver vars s) \<noteq> Convexity_NotSet"
  by (simp add: QuadraticTerms_updateConvexity_def Let_def split: option.splits prod.splits)

text \<open>
  C9. For each of the four collections, a second call of getConvexity (of getMonotonicity)
  on the collection that the first call left returns the same value and leaves the
  collection as the first call left it: the pair of value and collection is the same.
\<close>

theorem getters_idempotent:
  "LinearTerms_getConvexity (snd (LinearTerms_getConvexity l)) = LinearTerms_getConvexity l
   \<and> QuadraticTerms_getConvexity eigenSolver vars
         (snd (QuadraticTerms_getConvexity eigenSolver vars q))
       = QuadraticTerms_getConvexity eigenSolver vars q
   \<and> MonomialTerms_getConvexity (snd (MonomialTerms_getConvexity m))
       = MonomialTerms_getConvexity m
   \<and> SignomialTerms_getConvexity (snd (SignomialTerms_getConvexity g))
       = SignomialTerms_getConvexity g
   \<and> LinearTerms_getMonotonicity (snd (LinearTerms_getMonotonicity l))
       = LinearTerms_getMonotonicity l
   \<and> QuadraticTerms_getMonotonicity (snd (QuadraticTerms_getMonotonicity q))
       = QuadraticTerms_getMonotonicity q
   \<and> MonomialTerms_getMonotonicity (snd (MonomialTerms_getMonotonicity m))
       = MonomialTerms_getMonotonicity m
   \<and> SignomialTerms_getMonotonicity (snd (SignomialTerms_getMonotonicity g))
       = SignomialTerms_getMonotonicity g"
  by (simp add: LinearTerms_getConvexity_def QuadraticTerms_getConvexity_def
      MonomialTerms_getConvexity_def SignomialTerms_getConvexity_def
      LinearTerms_getMonotonicity_def QuadraticTerms_getMonotonicity_def
      MonomialTerms_getMonotonicity_def SignomialTerms_getMonotonicity_def
      Terms_getMonotonicity_twice Terms_getConvexity_twice QuadraticTerms_updateConvexity_set
      LinearTerms_updateConvexity_def MonomialTerms_updateConvexity_def
      SignomialTerms_updateConvexity_def)

section \<open>Properties of the product node\<close>

lemma ExpressionTimes_calculate_loop_zero:
  "\<forall>c\<in>set pre. calc c \<noteq> 0 \<Longrightarrow> calc z = 0 \<Longrightarrow>
   ExpressionTimes_calculate_loop calc (pre @ z # post) v called = (0, called @ pre @ [z])"
  by (induction pre arbitrary: v called) (simp_all add: Let_def)

lemma ExpressionTimes_calculate_loop_nonzero:
  "\<forall>c\<in>set cs. calc c \<noteq> 0 \<Longrightarrow>
   ExpressionTimes_calculate_loop calc cs v called = (foldl (*) v (map calc cs), called @ cs)"
  by (induction cs arbitrary: v called) (simp_all add: Let_def)

lemma ExpressionTimes_calculate_interval_loop_all:
  "ExpressionTimes_calculate_interval_loop mul calc cs v called
     = (foldl mul v (map calc cs), called @ cs)"
  by (induction cs arbitrary: v called) simp_all

text \<open>
  C3. Point evaluation of a product node folds the children in order: when a child
  evaluates to 0 and the children before it do not, the result is 0 and the children that
  were evaluated are those up to that child, none after it; when no child evaluates to 0
  the result is the product of all values, taken in order from 1. Interval evaluation
  multiplies the interval values of all children, in order from \<^verbatim>\<open>Interval(1., 1.)\<close>, and
  evaluates every child, whatever the intervals are.
\<close>

theorem ExpressionTimes_short_circuit:
  "(children = pre @ z # post \<and> (\<forall>c\<in>set pre. calculate c point \<noteq> 0) \<and> calculate z point = 0
      \<longrightarrow> ExpressionTimes_calculate calculate children point = (0, pre @ [z]))
   \<and> ((\<forall>c\<in>set children. calculate c point \<noteq> 0)
      \<longrightarrow> ExpressionTimes_calculate calculate children point
           = (foldl (*) 1 (map (\<lambda>c. calculate c point) children), children))
   \<and> ExpressionTimes_calculate_interval mul unit_interval calculateI children intervalVector
       = (foldl mul unit_interval (map (\<lambda>c. calculateI c intervalVector) children), children)"
  by (simp add: ExpressionTimes_calculate_def ExpressionTimes_calculate_interval_def
      ExpressionTimes_calculate_loop_zero ExpressionTimes_calculate_loop_nonzero
      ExpressionTimes_calculate_interval_loop_all)

theorem ExpressionTimes_short_circuit_witness:
  "ExpressionTimes_calculate (\<lambda>c point. fst c)
       [(2 :: real, (2 :: real, 2 :: real)), (0, (0, 0)), (5, (2, 3))] []
     = (0, [(2, (2, 2)), (0, (0, 0))])
   \<and> ExpressionTimes_calculate (\<lambda>c point. fst c)
       [(2 :: real, (2 :: real, 2 :: real)), (5, (2, 3))] []
     = (10, [(2, (2, 2)), (5, (2, 3))])
   \<and> ExpressionTimes_calculate_interval interval_times (1, 1) (\<lambda>c intervalVector. snd c)
        [(2 :: real, (2 :: real, 2 :: real)), (0, (0, 0)), (5, (2, 3))]
        ([] :: (real \<times> real) list)
     = ((0, 0), [(2, (2, 2)), (0, (0, 0)), (5, (2, 3))])"
  using ExpressionTimes_short_circuit
      [of "[(2 :: real, (2 :: real, 2 :: real)), (0, (0, 0)), (5, (2, 3))]"
          "[(2, (2, 2))]" "(0, (0, 0))" "[(5, (2, 3))]"
          "\<lambda>c point. fst c" "[]" interval_times "(1, 1)" "\<lambda>c intervalVector. snd c"
          "[] :: (real \<times> real) list"]
    ExpressionTimes_short_circuit
      [of "[(2 :: real, (2 :: real, 2 :: real)), (5, (2, 3))]" "[]" "(0, (0, 0))" "[]"
          "\<lambda>c point. fst c" "[]" interval_times "(1, 1)" "\<lambda>c intervalVector. snd c"
          "[] :: (real \<times> real) list"]
  by (simp add: interval_times_def)

section \<open>Properties of the run loop\<close>

lemma solveProblem_steps_done:
  "solveProblem_steps g ty r out n env = Some env' \<Longrightarrow> g env' = None \<Longrightarrow>
   solveProblem g ty r out env = Some (True, env')"
proof (induction n arbitrary: env)
  case 0
  then show ?case by (simp add: solveProblem.simps)
next
  case (Suc n)
  then show ?case
    by (subst solveProblem.simps)
       (auto simp: solveProblem_step_def split: option.splits prod.splits)
qed

lemma solveProblem_done_steps:
  assumes "solveProblem g ty r out env = Some res"
  shows "\<exists>n env'. solveProblem_steps g ty r out n env = Some env' \<and> g env' = None
           \<and> res = (True, env')"
proof (rule solveProblem.raw_induct
    [where P = "\<lambda>g ty r out env res. \<exists>n env'. solveProblem_steps g ty r out n env = Some env'
        \<and> g env' = None \<and> res = (True, env')", OF _ assms])
  fix f g ty r out and env :: 'a and res :: "bool \<times> 'a"
  assume IH: "\<And>g ty r out env y. f g ty r out env = Some y \<Longrightarrow>
      \<exists>n env'. solveProblem_steps g ty r out n env = Some env' \<and> g env' = None
        \<and> y = (True, env')"
    and step: "(case g env of None \<Rightarrow> Some (True, env)
       | Some (nextTask, env1) \<Rightarrow>
           f g ty r out (out (''Finished task: '' @ ty nextTask)
               (r nextTask (out (''Started task:  '' @ ty nextTask) env1)))) = Some res"
  show "\<exists>n env'. solveProblem_steps g ty r out n env = Some env' \<and> g env' = None
        \<and> res = (True, env')"
  proof (cases "g env")
    case None
    with step have "res = (True, env)" by simp
    with None have "solveProblem_steps g ty r out 0 env = Some env \<and> g env = None
        \<and> res = (True, env)"
      by simp
    then show ?thesis by blast
  next
    case (Some a)
    obtain t env1 where a: "a = (t, env1)" by (cases a)
    let ?e = "out (''Finished task: '' @ ty t) (r t (out (''Started task:  '' @ ty t) env1))"
    from step Some a have "f g ty r out ?e = Some res" by simp
    from IH[OF this] obtain n env' where
      "solveProblem_steps g ty r out n ?e = Some env'" "g env' = None" "res = (True, env')"
      by blast
    with Some a have "solveProblem_steps g ty r out (Suc n) env = Some env' \<and> g env' = None
        \<and> res = (True, env')"
      by (simp add: solveProblem_step_def)
    then show ?thesis by blast
  qed
qed


lemma goto_env_step:
  "solveProblem_step Environment_getNextTask (\<lambda>t. []) TaskBase_run_cursor (\<lambda>m e. e) goto_env
     = Some goto_env"
  by (simp add: solveProblem_step_def Environment_getNextTask_def TaskHandler_getNextTask_def
      TaskBase_run_cursor_def TaskHandler_setNextTask_def goto_env_def)

lemma goto_env_steps:
  "solveProblem_steps Environment_getNextTask (\<lambda>t. []) TaskBase_run_cursor (\<lambda>m e. e) n goto_env
     = Some goto_env"
  by (induction n) (simp_all add: goto_env_step)

lemma goto_env_next: "Environment_getNextTask goto_env \<noteq> None"
  by (simp add: Environment_getNextTask_def TaskHandler_getNextTask_def goto_env_def)

lemma solveProblem_Some_iff:
  "(solveProblem g ty r out env = Some res)
     = (\<exists>n env'. solveProblem_steps g ty r out n env = Some env' \<and> g env' = None
          \<and> res = (True, env'))"
proof
  assume "solveProblem g ty r out env = Some res"
  then show "\<exists>n env'. solveProblem_steps g ty r out n env = Some env' \<and> g env' = None
          \<and> res = (True, env')"
    by (rule solveProblem_done_steps)
next
  assume "\<exists>n env'. solveProblem_steps g ty r out n env = Some env' \<and> g env' = None
          \<and> res = (True, env')"
  then obtain n env' where "solveProblem_steps g ty r out n env = Some env'" "g env' = None"
    "res = (True, env')"
    by blast
  then show "solveProblem g ty r out env = Some res"
    by (simp add: solveProblem_steps_done)
qed

text \<open>
  C6, as the claim states it, fails: the loop need not reach a terminal state. On the
  registry whose only task is a Goto bound under the name it targets, the cursor yields
  that task again after every run, and solveProblem does not return.
\<close>

theorem solveProblem_self_goto_counterexample:
  "SolutionStrategySingleTree_solveProblem Environment_getNextTask (\<lambda>t. []) TaskBase_run_cursor
     (\<lambda>m e. e) goto_env = None"
proof (cases "solveProblem Environment_getNextTask (\<lambda>t. []) TaskBase_run_cursor
     (\<lambda>m e. e) goto_env")
  case None
  then show ?thesis by (simp add: SolutionStrategySingleTree_solveProblem_def)
next
  case (Some res)
  from solveProblem_done_steps[OF this] obtain n env' where
    "solveProblem_steps Environment_getNextTask (\<lambda>t. []) TaskBase_run_cursor (\<lambda>m e. e) n goto_env
       = Some env'" "Environment_getNextTask env' = None"
    by blast
  with goto_env_steps[of n] goto_env_next show ?thesis by simp
qed

text \<open>
  C6, amended. solveProblem (of both strategies) fetches and runs the next task again and
  again. It returns exactly when, after some number of passes, the cursor yields no task;
  it then returns true, with the state that those passes produced. It has no other
  result: it never returns false.
\<close>

theorem solveProblem_returns_true:
  "(SolutionStrategySingleTree_solveProblem getNextTask getType run outputInfo env = Some res)
     = (\<exists>n env'. solveProblem_steps getNextTask getType run outputInfo n env = Some env'
          \<and> getNextTask env' = None \<and> res = (True, env'))
   \<and> (SolutionStrategyNLP_solveProblem getNextTask getType run outputDebug env = Some res)
     = (\<exists>n env'. solveProblem_steps getNextTask getType run outputDebug n env = Some env'
          \<and> getNextTask env' = None \<and> res = (True, env'))"
  unfolding SolutionStrategySingleTree_solveProblem_def SolutionStrategyNLP_solveProblem_def
  by (simp only: solveProblem_Some_iff simp_thms)

theorem solveProblem_returns_true_witness:
  "SolutionStrategySingleTree_solveProblem Environment_getNextTask (\<lambda>t. []) TaskBase_run_cursor
     (\<lambda>m e. e) abc_env
   = Some (True, abc_env\<lparr>tasks := (tasks abc_env)\<lparr>cursor := 3\<rparr>\<rparr>)"
proof -
  have "solveProblem_steps Environment_getNextTask (\<lambda>t. []) TaskBase_run_cursor (\<lambda>m e. e)
          (Suc (Suc (Suc 0))) abc_env
        = Some (abc_env\<lparr>tasks := (tasks abc_env)\<lparr>cursor := 3\<rparr>\<rparr>)"
    by (simp add: solveProblem_step_def Environment_getNextTask_def TaskHandler_getNextTask_def
        TaskBase_run_cursor_def abc_env_def)
  moreover have "Environment_getNextTask (abc_env\<lparr>tasks := (tasks abc_env)\<lparr>cursor := 3\<rparr>\<rparr>) = None"
    by (simp add: Environment_getNextTask_def TaskHandler_getNextTask_def abc_env_def)
  ultimately show ?thesis
    using solveProblem_returns_true
      [of Environment_getNextTask "\<lambda>t. []" TaskBase_run_cursor "\<lambda>m e. e" abc_env
          "(True, abc_env\<lparr>tasks := (tasks abc_env)\<lparr>cursor := 3\<rparr>\<rparr>)"]
    by blast
qed

section \<open>Properties of the strategy constructors\<close>

text \<open>
  The observations of the environment are pushed through the chain of bindings of a
  constructor to its last step and then computed step by step, from the last step back to
  the environment that the constructor received.
\<close>

lemma push_Let: "f (Let a g) = (let x = a in f (g x))"
  by simp

lemma push_prod: "f (case_prod g p) = (case p of (u, v) \<Rightarrow> f (g u v))"
  by (simp split: prod.splits)

lemmas push =
  push_Let [of taskNames] push_prod [of taskNames] if_distrib [of taskNames]
  push_Let [of slots] push_prod [of slots] if_distrib [of slots]
  push_Let [of "allocated T"] push_prod [of "allocated T"] if_distrib [of "allocated T"]
  push_Let [of "holds_object p T"] push_prod [of "holds_object p T"] if_distrib [of "holds_object p T"]
  for T p

lemma new_case: "case_prod g (new t env) = g (heapsize env) (snd (new t env))"
  by (simp add: new_def heapsize_def)

lemma holds_object_seq:
  assumes "\<And>subs. T \<noteq> TaskSequential subs"
  shows "holds_object p T (TaskSequential_addTask q sub env) = holds_object p T env"
proof (cases "\<exists>subs. objects env ! q = TaskSequential subs")
  case True
  then obtain subs where s: "objects env ! q = TaskSequential subs" by blast
  then have o: "objects (TaskSequential_addTask q sub env)
      = (objects env)[q := TaskSequential (subs @ [sub])]"
    by (simp add: TaskSequential_addTask_def)
  show ?thesis
  proof (cases "p = q")
    case True
    have "T \<noteq> TaskSequential (subs @ [sub])" "T \<noteq> TaskSequential subs"
      using assms by blast+
    with True s o show ?thesis by (auto simp: holds_object_def)
  next
    case False
    with o show ?thesis by (simp add: holds_object_def)
  qed
next
  case False
  then have "TaskSequential_addTask q sub env = env"
    by (auto simp: TaskSequential_addTask_def split: TaskBase.splits)
  then show ?thesis by simp
qed

lemma allocated_holds: "allocated T env = (\<exists>p. holds_object p T env)"
  by (auto simp: allocated_def holds_object_def in_set_conv_nth)

lemma allocated_seq:
  "(\<And>subs. T \<noteq> TaskSequential subs) \<Longrightarrow>
   allocated T (TaskSequential_addTask q sub env) = allocated T env"
  by (simp add: allocated_holds holds_object_seq)

lemma obs_new:
  "taskNames (snd (new t env)) = taskNames env"
  "slots (snd (new t env)) = slots env"
  "heapsize (snd (new t env)) = Suc (heapsize env)"
  "settings (snd (new t env)) = settings env"
  "reformulatedProblem (snd (new t env)) = reformulatedProblem env"
  "allocated T (snd (new t env)) = (t = T \<or> allocated T env)"
  "holds_object p T (snd (new t env)) = ((p = heapsize env \<and> t = T) \<or> holds_object p T env)"
  by (auto simp: taskNames_def slots_def heapsize_def new_def allocated_def holds_object_def
      nth_append)

lemma obs_addTask:
  "taskNames (addTask p n env) = taskNames env @ [n]"
  "slots (addTask p n env) = slots env @ [(n, p)]"
  "heapsize (addTask p n env) = heapsize env"
  "settings (addTask p n env) = settings env"
  "reformulatedProblem (addTask p n env) = reformulatedProblem env"
  "allocated T (addTask p n env) = allocated T env"
  "holds_object q T (addTask p n env) = holds_object q T env"
  by (simp_all add: taskNames_def slots_def heapsize_def addTask_def TaskHandler_addTask_def
      allocated_def holds_object_def)

lemma obs_createTimer:
  "taskNames (createTimer a b env) = taskNames env"
  "slots (createTimer a b env) = slots env"
  "heapsize (createTimer a b env) = heapsize env"
  "settings (createTimer a b env) = settings env"
  "reformulatedProblem (createTimer a b env) = reformulatedProblem env"
  "allocated T (createTimer a b env) = allocated T env"
  "holds_object q T (createTimer a b env) = holds_object q T env"
  by (simp_all add: taskNames_def slots_def heapsize_def createTimer_def
      allocated_def holds_object_def)

lemma obs_seq:
  "taskNames (TaskSequential_addTask q sub env) = taskNames env"
  "slots (TaskSequential_addTask q sub env) = slots env"
  "heapsize (TaskSequential_addTask q sub env) = heapsize env"
  "settings (TaskSequential_addTask q sub env) = settings env"
  "reformulatedProblem (TaskSequential_addTask q sub env) = reformulatedProblem env"
  by (simp_all add: taskNames_def slots_def heapsize_def TaskSequential_addTask_def
      split: TaskBase.splits)

lemmas obs_if =
  if_distrib [of settings] if_distrib [of reformulatedProblem] if_distrib [of heapsize]

lemma merge:
  "(if c then xs @ ys else xs) = xs @ (if c then ys else [])"
  "(if c then xs @ ys else xs @ zs) = xs @ (if c then ys else zs)"
  "(if c then Suc (Suc n) else n) = n + (if c then 2 else 0)"
  "(if c then Suc m else Suc n) = Suc (if c then m else n)"
  "(if c then Suc n else n) = n + (if c then 1 else 0)"
  "(if c then (A \<or> B) else B) = ((c \<and> A) \<or> B)"
  "(if c then (A \<or> A' \<or> B) else B) = ((c \<and> (A \<or> A')) \<or> B)"
  "(if c then (A \<or> A' \<or> B) else (A'' \<or> B)) = ((if c then A \<or> A' else A'') \<or> B)"
  by auto

lemmas seq_special =
  allocated_seq [of TaskFindInteriorPoint, simplified]
  holds_object_seq [of "TaskCheckAbsoluteGap x", simplified]
  for x

lemmas evalrules = Let_def new_case obs_new obs_addTask obs_createTimer obs_seq obs_if
  push if_cancel merge append_assoc seq_special TaskBase.distinct TaskBase.inject simp_thms
  disj_assoc

lemma filter_two:
  "filter P xs = [a, b] \<Longrightarrow> \<exists>i j. i < j \<and> j < length xs \<and> xs ! i = a \<and> xs ! j = b"
proof -
  assume f: "filter P xs = [a, b]"
  then obtain us vs where 1: "xs = us @ a # vs" "[b] = filter P vs"
    by (auto simp: filter_eq_Cons_iff)
  then obtain us' vs' where 2: "vs = us' @ b # vs'"
    by (metis filter_eq_Cons_iff)
  have "xs ! length us = a" using 1 by simp
  moreover have "xs ! (length us + Suc (length us')) = b" using 1 2
    by (simp add: nth_append)
  moreover have "length us + Suc (length us') < length xs" using 1 2 by simp
  ultimately show ?thesis
    by (intro exI[of _ "length us"] exI[of _ "length us + Suc (length us')"]) simp
qed

lemmas filter_eval1 = filter_append if_distrib [of "filter P" for P] filter.simps fst_conv
lemmas filter_eval2 = list.inject char.inject simp_thms if_False if_True if_cancel
lemmas filter_eval3 = append_Nil append_Nil2 simp_thms if_True if_False

lemma SingleTree_CheckAbsGap_slots:
  assumes "getBoolSetting (settings env) ''FixedInteger.Use'' ''Primal''"
    and "isDiscrete (properties (reformulatedProblem env))"
  shows "\<exists>p. filter (\<lambda>b. fst b = ''CheckAbsGap'') (slots (SolutionStrategySingleTree K env))
          = filter (\<lambda>b. fst b = ''CheckAbsGap'') (slots env)
              @ [(''CheckAbsGap'', p), (''CheckAbsGap'', p)]
        \<and> holds_object p (TaskCheckAbsoluteGap ''FinalizeSolution'')
            (SolutionStrategySingleTree K env)"
proof -
  define p where "p = heapsize env + 10
    + (if getIntSetting (settings env) ''CutStrategy'' ''Dual'' = ES_HyperplaneCutStrategy_ESH K
          \<and> 0 < numberOfNonlinearConstraints (properties (reformulatedProblem env))
       then 1 else 0)
    + (if getBoolSetting (settings env) ''Relaxation.Use'' ''Dual'' then 1 else 0)
    + (if getIntSetting (settings env) ''MIP.Presolve.Frequency'' ''Dual''
          \<noteq> ES_MIPPresolveStrategy_Never K then 1 else 0)
    + (if getBoolSetting (settings env) ''Linesearch.Use'' ''Primal''
          \<and> 0 < numberOfNonlinearConstraints (properties (reformulatedProblem env))
       then 1 else 0)
    + (if getIntSetting (settings env) ''Convexity'' ''Strategy''
          \<noteq> ES_ConvexityIdentificationStrategy_AssumeConvex K then 1 else 0)"
  have 1: "filter (\<lambda>b. fst b = ''CheckAbsGap'') (slots (SolutionStrategySingleTree K env))
          = filter (\<lambda>b. fst b = ''CheckAbsGap'') (slots env)
              @ [(''CheckAbsGap'', p), (''CheckAbsGap'', p)]"
    unfolding SolutionStrategySingleTree_def
    apply (simp only: push cong del: if_weak_cong)
    apply (simp only: evalrules cong del: if_weak_cong)
    apply (simp only: filter_eval1)
    apply (simp only: filter_eval2 cong del: if_weak_cong)
    apply (simp only: filter_eval3 assms)
    apply (simp add: p_def)
    done
  have 2: "holds_object p (TaskCheckAbsoluteGap ''FinalizeSolution'')
            (SolutionStrategySingleTree K env)"
    unfolding SolutionStrategySingleTree_def
    apply (simp only: push cong del: if_weak_cong)
    apply (simp only: evalrules cong del: if_weak_cong)
    apply (simp add: p_def)
    done
  from 1 2 show ?thesis by blast
qed

lemma SingleTree_FindIntPoint_names:
  "filter (\<lambda>n. n = ''FindIntPoint'') (taskNames (SolutionStrategySingleTree K env))
     = filter (\<lambda>n. n = ''FindIntPoint'') (taskNames env)
       @ (if getIntSetting (settings env) ''CutStrategy'' ''Dual'' = ES_HyperplaneCutStrategy_ESH K
            \<and> 0 < numberOfNonlinearConstraints (properties (reformulatedProblem env))
          then [''FindIntPoint''] else [])"
  unfolding SolutionStrategySingleTree_def
  apply (simp only: push cong del: if_weak_cong)
  apply (simp only: evalrules cong del: if_weak_cong)
  apply (simp only: filter_eval1)
  apply (simp only: filter_eval2 cong del: if_weak_cong)
  apply (simp only: filter_eval3 if_cancel)
  done

lemma NLP_FindIntPoint_names:
  "filter (\<lambda>n. n = ''FindIntPoint'') (taskNames (SolutionStrategyNLP K env))
     = filter (\<lambda>n. n = ''FindIntPoint'') (taskNames env)
       @ (if getIntSetting (settings env) ''CutStrategy'' ''Dual'' = ES_HyperplaneCutStrategy_ESH K
            \<and> 0 < numberOfNonlinearConstraints (properties (reformulatedProblem env))
          then [''FindIntPoint''] else [])"
  unfolding SolutionStrategyNLP_def
  apply (simp only: push cong del: if_weak_cong)
  apply (simp only: evalrules cong del: if_weak_cong)
  apply (simp only: filter_eval1)
  apply (simp only: filter_eval2 cong del: if_weak_cong)
  apply (simp only: filter_eval3 if_cancel)
  done

lemma SingleTree_FindIntPoint_allocated:
  "allocated TaskFindInteriorPoint (SolutionStrategySingleTree K env)
     = ((getIntSetting (settings env) ''CutStrategy'' ''Dual'' = ES_HyperplaneCutStrategy_ESH K
            \<and> 0 < numberOfNonlinearConstraints (properties (reformulatedProblem env)))
        \<or> allocated TaskFindInteriorPoint env)"
  unfolding SolutionStrategySingleTree_def
  apply (simp only: push cong del: if_weak_cong)
  apply (simp only: evalrules cong del: if_weak_cong)
  apply auto
  done

lemma NLP_FindIntPoint_allocated:
  "allocated TaskFindInteriorPoint (SolutionStrategyNLP K env)
     = ((getIntSetting (settings env) ''CutStrategy'' ''Dual'' = ES_HyperplaneCutStrategy_ESH K
            \<and> 0 < numberOfNonlinearConstraints (properties (reformulatedProblem env)))
        \<or> allocated TaskFindInteriorPoint env)"
  unfolding SolutionStrategyNLP_def
  apply (simp only: push cong del: if_weak_cong)
  apply (simp only: evalrules cong del: if_weak_cong)
  apply auto
  done

lemma mem_filter: "(x \<in> set xs) = (filter (\<lambda>n. n = x) xs \<noteq> [])"
  by (induction xs) auto

text \<open>The names that the two constructors bind, in execution order.\<close>

lemma SolutionStrategySingleTree_taskNames:
  "taskNames (SolutionStrategySingleTree K env) = taskNames env @
     [''InitMIPSolver'', ''ReformulateProb''] @
     (if getIntSetting (settings env) ''CutStrategy'' ''Dual'' = ES_HyperplaneCutStrategy_ESH K
         \<and> numberOfNonlinearConstraints (properties (reformulatedProblem env)) > 0
      then [''FindIntPoint''] else []) @
     [''CreateDualProblem'', ''InitializeLinesearch'', ''InitIter'', ''AddHPs''] @
     (if getBoolSetting (settings env) ''Relaxation.Use'' ''Dual''
      then [''ExecRelaxStrategyInitial''] else []) @
     (if getIntSetting (settings env) ''MIP.Presolve.Frequency'' ''Dual''
           \<noteq> ES_MIPPresolveStrategy_Never K
      then [''Presolve''] else []) @
     [''SolveIter'', ''SelectPrimSolPool''] @
     (if getBoolSetting (settings env) ''Linesearch.Use'' ''Primal''
         \<and> numberOfNonlinearConstraints (properties (reformulatedProblem env)) > 0
      then [''SelectPrimLinesearch''] else []) @
     [''PrintIterReport''] @
     (if getIntSetting (settings env) ''Convexity'' ''Strategy''
           \<noteq> ES_ConvexityIdentificationStrategy_AssumeConvex K
      then [''RepairInfeasibility''] else []) @
     [''CheckAbsGap'', ''CheckRelGap'', ''CheckIterLim'', ''CheckTimeLim'', ''CheckConstrTol'',
      ''CheckIterError'', ''CheckMaxObjectiveCuts'', ''CheckPrimalStag'', ''AddObjectiveCut'',
      ''CheckDualStag''] @
     (if getBoolSetting (settings env) ''FixedInteger.Use'' ''Primal''
         \<and> isDiscrete (properties (reformulatedProblem env))
      then [''SelectPrimFixedNLPSolPool'', ''SelectPrimNLPCheck'', ''CheckAbsGap'', ''CheckRelGap'']
      else []) @
     [''InitIter2''] @
     (if getBoolSetting (settings env) ''Relaxation.Use'' ''Dual''
      then [''ExecRelaxStrategy''] else []) @
     (if getIntSetting (settings env) ''CutStrategy'' ''Dual'' = ES_HyperplaneCutStrategy_ESH K
      then [''UpdateInteriorPoint'', ''SelectHPPts''] else [''SelectHPPts'']) @
     (if objectiveFunction_classification (reformulatedProblem env)
           > E_ObjectiveFunctionClassification_Quadratic K
      then [''SelectObjectiveHPPts''] else []) @
     (if getBoolSetting (settings env) ''HyperplaneCuts.UseIntegerCuts'' ''Dual''
      then [''AddICs''] else []) @
     [''AddHPs'', ''Goto'', ''FinalizeSolution'', ''Terminate'']"
  unfolding SolutionStrategySingleTree_def
  apply (simp only: push cong del: if_weak_cong)
  apply (simp only: evalrules cong del: if_weak_cong)
  apply (simp only: append_Cons append_Nil)
  done

lemma SolutionStrategyNLP_taskNames:
  "taskNames (SolutionStrategyNLP K env) = taskNames env @
     [''InitMIPSolver''] @
     (if getIntSetting (settings env) ''CutStrategy'' ''Dual'' = ES_HyperplaneCutStrategy_ESH K
         \<and> numberOfNonlinearConstraints (properties (reformulatedProblem env)) > 0
      then [''FindIntPoint''] else []) @
     [''CreateDualProblem'', ''InitializeLinesearch'', ''InitIter'', ''AddHPs''] @
     (if getIntSetting (settings env) ''MIP.Presolve.Frequency'' ''Dual''
           \<noteq> ES_MIPPresolveStrategy_Never K
      then [''Presolve''] else []) @
     [''SolveIter'', ''SelectPrimSolPool''] @
     (if getBoolSetting (settings env) ''Linesearch.Use'' ''Primal''
         \<and> numberOfNonlinearConstraints (properties (reformulatedProblem env)) > 0
      then [''SelectPrimLinesearch''] else []) @
     [''PrintIterReport''] @
     (if getIntSetting (settings env) ''Convexity'' ''Strategy''
           \<noteq> ES_ConvexityIdentificationStrategy_AssumeConvex K
         \<and> problem_convexity (properties (reformulatedProblem env)) \<noteq> E_ProblemConvexity_Convex K
      then [''RepairInfeasibility''] else []) @
     [''CheckAbsGap'', ''CheckRelGap'', ''CheckIterLim'', ''CheckTimeLim'',
      ''CheckUserTermination'', ''CheckIterError'', ''CheckConstrTol'', ''CheckPrimalStag'',
      ''AddObjectiveCut'', ''CheckDualStag'', ''InitIter2''] @
     (if getIntSetting (settings env) ''CutStrategy'' ''Dual'' = ES_HyperplaneCutStrategy_ESH K
      then [''UpdateInteriorPoint'', ''SelectHPPts''] else [''SelectHPPts'']) @
     (if objectiveFunction_classification (reformulatedProblem env)
           > E_ObjectiveFunctionClassification_Quadratic K
      then [''SelectObjectiveHPPts''] else []) @
     [''AddHPs'', ''Goto'', ''FinalizeSolution'', ''Terminate'']"
  unfolding SolutionStrategyNLP_def
  apply (simp only: push cong del: if_weak_cong)
  apply (simp only: evalrules cong del: if_weak_cong)
  apply (simp only: append_Cons append_Nil)
  done

lemma env_example_simps:
  "getIntSetting (settings (env_example b i n d)) category nm = i"
  "getBoolSetting (settings (env_example b i n d)) category nm = b"
  "numberOfNonlinearConstraints (properties (reformulatedProblem (env_example b i n d))) = n"
  "isDiscrete (properties (reformulatedProblem (env_example b i n d))) = d"
  "taskNames (env_example b i n d) = []"
  "allocated task (env_example b i n d) = False"
  "ES_HyperplaneCutStrategy_ESH enums_example = 0"
  by (simp_all add: env_example_def settings_example_def problem_example_def taskNames_def
      TaskHandler_init_def allocated_def enums_example_def)

text \<open>
  C7. The registry is given to the constructor without a binding of the name
  \<open>CheckAbsGap\<close>. With the fixed-integer primal setting enabled on a discrete problem, the
  registry that the single-tree constructor builds binds \<open>CheckAbsGap\<close> at two distinct
  positions and nowhere else; the two bindings hold the same pointer, and the object it
  points to is the \<^verbatim>\<open>TaskCheckAbsoluteGap\<close> created with the target \<open>FinalizeSolution\<close>.
\<close>

theorem CheckAbsGap_bound_twice:
  assumes "getBoolSetting (settings env) ''FixedInteger.Use'' ''Primal''"
    and "isDiscrete (properties (reformulatedProblem env))"
    and "''CheckAbsGap'' \<notin> set (taskNames env)"
  shows "\<exists>p i j. i < j \<and> j < length (slots (SolutionStrategySingleTree K env))
      \<and> slots (SolutionStrategySingleTree K env) ! i = (''CheckAbsGap'', p)
      \<and> slots (SolutionStrategySingleTree K env) ! j = (''CheckAbsGap'', p)
      \<and> filter (\<lambda>b. fst b = ''CheckAbsGap'') (slots (SolutionStrategySingleTree K env))
          = [(''CheckAbsGap'', p), (''CheckAbsGap'', p)]
      \<and> holds_object p (TaskCheckAbsoluteGap ''FinalizeSolution'')
          (SolutionStrategySingleTree K env)"
proof -
  from assms(3) have e: "filter (\<lambda>b. fst b = ''CheckAbsGap'') (slots env) = []"
    by (force simp: taskNames_def slots_def filter_empty_conv)
  from SingleTree_CheckAbsGap_slots[OF assms(1,2), of K] e obtain p where
    f: "filter (\<lambda>b. fst b = ''CheckAbsGap'') (slots (SolutionStrategySingleTree K env))
          = [(''CheckAbsGap'', p), (''CheckAbsGap'', p)]"
    and h: "holds_object p (TaskCheckAbsoluteGap ''FinalizeSolution'')
          (SolutionStrategySingleTree K env)"
    by auto
  from filter_two[OF f] obtain i j where
    "i < j" "j < length (slots (SolutionStrategySingleTree K env))"
    "slots (SolutionStrategySingleTree K env) ! i = (''CheckAbsGap'', p)"
    "slots (SolutionStrategySingleTree K env) ! j = (''CheckAbsGap'', p)"
    by blast
  with f h show ?thesis by blast
qed

theorem CheckAbsGap_bound_twice_witness:
  "\<exists>p i j. i < j
      \<and> j < length (slots (SolutionStrategySingleTree enums_example (env_example True 0 1 True)))
      \<and> slots (SolutionStrategySingleTree enums_example (env_example True 0 1 True)) ! i
          = (''CheckAbsGap'', p)
      \<and> slots (SolutionStrategySingleTree enums_example (env_example True 0 1 True)) ! j
          = (''CheckAbsGap'', p)
      \<and> filter (\<lambda>b. fst b = ''CheckAbsGap'')
          (slots (SolutionStrategySingleTree enums_example (env_example True 0 1 True)))
          = [(''CheckAbsGap'', p), (''CheckAbsGap'', p)]
      \<and> holds_object p (TaskCheckAbsoluteGap ''FinalizeSolution'')
          (SolutionStrategySingleTree enums_example (env_example True 0 1 True))"
  by (rule CheckAbsGap_bound_twice) (simp_all only: env_example_simps list.set empty_iff simp_thms)

text \<open>
  C8. The environment is given to the constructor without a binding of the name
  \<open>FindIntPoint\<close> and without a \<^verbatim>\<open>TaskFindInteriorPoint\<close> object. In the registry built by
  either constructor the name \<open>FindIntPoint\<close> is bound exactly when the setting
  CutStrategy of Dual equals ESH and the reformulated problem has a nonlinear constraint;
  and exactly then a \<^verbatim>\<open>TaskFindInteriorPoint\<close> object has been created.
\<close>

theorem FindIntPoint_included_iff:
  assumes "''FindIntPoint'' \<notin> set (taskNames env)"
    and "\<not> allocated TaskFindInteriorPoint env"
  shows "(''FindIntPoint'' \<in> set (taskNames (SolutionStrategySingleTree K env)))
           = (getIntSetting (settings env) ''CutStrategy'' ''Dual'' = ES_HyperplaneCutStrategy_ESH K
              \<and> 0 < numberOfNonlinearConstraints (properties (reformulatedProblem env)))
       \<and> allocated TaskFindInteriorPoint (SolutionStrategySingleTree K env)
           = (getIntSetting (settings env) ''CutStrategy'' ''Dual'' = ES_HyperplaneCutStrategy_ESH K
              \<and> 0 < numberOfNonlinearConstraints (properties (reformulatedProblem env)))
       \<and> (''FindIntPoint'' \<in> set (taskNames (SolutionStrategyNLP K env)))
           = (getIntSetting (settings env) ''CutStrategy'' ''Dual'' = ES_HyperplaneCutStrategy_ESH K
              \<and> 0 < numberOfNonlinearConstraints (properties (reformulatedProblem env)))
       \<and> allocated TaskFindInteriorPoint (SolutionStrategyNLP K env)
           = (getIntSetting (settings env) ''CutStrategy'' ''Dual'' = ES_HyperplaneCutStrategy_ESH K
              \<and> 0 < numberOfNonlinearConstraints (properties (reformulatedProblem env)))"
proof -
  from assms(1) have e: "filter (\<lambda>n. n = ''FindIntPoint'') (taskNames env) = []"
    by (simp add: mem_filter)
  show ?thesis
    using assms(2)
    by (simp add: mem_filter SingleTree_FindIntPoint_names NLP_FindIntPoint_names e
        SingleTree_FindIntPoint_allocated NLP_FindIntPoint_allocated)
qed

theorem FindIntPoint_included_iff_witness:
  "''FindIntPoint''
      \<in> set (taskNames (SolutionStrategySingleTree enums_example (env_example True 0 1 True)))
   \<and> ''FindIntPoint''
      \<in> set (taskNames (SolutionStrategyNLP enums_example (env_example True 0 1 True)))
   \<and> ''FindIntPoint''
      \<notin> set (taskNames (SolutionStrategySingleTree enums_example (env_example True 1 1 True)))
   \<and> ''FindIntPoint''
      \<notin> set (taskNames (SolutionStrategyNLP enums_example (env_example True 0 0 True)))
   \<and> \<not> allocated TaskFindInteriorPoint
        (SolutionStrategyNLP enums_example (env_example True 1 1 True))"
  using FindIntPoint_included_iff [of "env_example True 0 1 True" enums_example]
    FindIntPoint_included_iff [of "env_example True 1 1 True" enums_example]
    FindIntPoint_included_iff [of "env_example True 0 0 True" enums_example]
  by (simp only: env_example_simps simp_thms list.set empty_iff not_False_eq_True
      zero_less_one less_irrefl zero_neq_one one_neq_zero)

end
